theory Spec2Isabelle
  imports Main
begin

section \<open>Python values, errors and SQLAlchemy objects\<close>

text \<open>
  The planner of \<^verbatim>\<open>custom/db.py\<close> builds SQLAlchemy expression and query objects and
  raises Python exceptions. An exception is a value of \<open>pyerr\<close>, carrying the message the
  source formats; a function that may raise returns \<open>pyerr + 'a\<close> with \<open>Inl\<close> for the
  raise. Strings are lists of 8-bit characters.
\<close>

datatype pyerr =
    ValueError string
  | KeyError string
  | TypeError string
  | AttributeError string

text \<open>\<^verbatim>\<open>'%s' % x\<close> for an \<open>x\<close> that is a string or \<^verbatim>\<open>None\<close>.\<close>

fun py_str :: "string option \<Rightarrow> string" where
  "py_str None = ''None''"
| "py_str (Some s) = s"

text \<open>
  A column expression. \<open>Col t c\<close> is \<^verbatim>\<open>t.c[c]\<close>, the column \<open>c\<close> of the table (or
  subquery alias) named \<open>t\<close>; \<open>Func f args\<close> is \<^verbatim>\<open>func.f(*args)\<close>; \<open>Lit\<close> is a bound
  Python integer; \<open>Div\<close> and \<open>Mul\<close> are the overloaded \<^verbatim>\<open>/\<close> and \<^verbatim>\<open>*\<close>;
  \<open>Label e a\<close> is \<^verbatim>\<open>e.label(a)\<close>.
\<close>

datatype expr =
    Col string string
  | Func string "expr list"
  | Lit int
  | Div expr expr
  | Mul expr expr
  | Label expr string

text \<open>
  A filter or join condition: \<^verbatim>\<open>e.isnot(None)\<close>, \<^verbatim>\<open>e >= ts\<close>, \<^verbatim>\<open>e < ts\<close>,
  \<^verbatim>\<open>e.in_(names)\<close>, \<^verbatim>\<open>l == r\<close>, \<^verbatim>\<open>or_(*ps)\<close> and \<^verbatim>\<open>and_(*ps)\<close>. A datetime
  is the number of seconds since the epoch.
\<close>

datatype pred =
    IsNotNull expr
  | Ge expr int
  | Lt expr int
  | InP expr "string list"
  | Eq expr expr
  | OrP "pred list"
  | AndP "pred list"

text \<open>
  A reflected table: its name and the names of its columns, in order. The database maps
  a schema and a table name to the table stored there.
\<close>

record table =
  tname :: string
  tcols :: "string list"

type_synonym database = "string option \<times> string \<Rightarrow> table option"

text \<open>\<^verbatim>\<open>table.c[name]\<close>: SQLAlchemy raises \<^verbatim>\<open>KeyError(name)\<close> for a missing column.\<close>

definition c_lookup :: "table \<Rightarrow> string \<Rightarrow> pyerr + expr" where
  "c_lookup t n = (if n \<in> set (tcols t) then Inr (Col (tname t) n) else Inl (KeyError n))"

text \<open>
  \<^verbatim>\<open>Database.get_table\<close> for a table given by name (the only form the planner's callers
  in this file use): the reflected table, or \<^verbatim>\<open>KeyError\<close> when there is none.
\<close>

definition get_table :: "database \<Rightarrow> string \<Rightarrow> string option \<Rightarrow> pyerr + table" where
  "get_table db table_name schema =
     (case db (schema, table_name) of
        Some t \<Rightarrow> Inr t
      | None \<Rightarrow> Inl (KeyError (''Table '' @ table_name @ '' does not exist in the schema ''
                                @ py_str schema @ '' '')))"

section \<open>Aggregate expression builder and null-row filter builder\<close>

text \<open>The dictionary \<^verbatim>\<open>agg_map\<close> of \<^verbatim>\<open>_aggregate_item\<close>: aggregate kind to SQL function.\<close>

definition agg_map :: "string \<Rightarrow> string option" where
  "agg_map = map_of
     [(''count'', ''count''),
      (''max'', ''max''),
      (''mean'', ''avg''),
      (''min'', ''min''),
      (''std'', ''std''),
      (''sum'', ''sum'')]"

text \<open>
  The alias that \<^verbatim>\<open>_aggregate_item\<close> settles on before it looks anything up. In the
  last branch of the timestamp case the source formats \<^verbatim>\<open>alias_column\<close>, which is
  \<^verbatim>\<open>None\<close> there.
\<close>

definition aggregate_alias :: "string \<Rightarrow> string \<Rightarrow> string option \<Rightarrow> string option \<Rightarrow> string" where
  "aggregate_alias column_name aggregate alias_column timestamp_col =
     (case alias_column of
        None \<Rightarrow>
          (if Some column_name = timestamp_col then
             (if aggregate = ''min'' then ''first_'' @ py_str timestamp_col
              else if aggregate = ''max'' then ''last_'' @ py_str timestamp_col
              else py_str alias_column @ ''_'' @ py_str timestamp_col)
           else column_name)
      | Some a \<Rightarrow> a)"

text \<open>
  \<^verbatim>\<open>Database._aggregate_item\<close>: the alias, then the aggregate function (\<^verbatim>\<open>ValueError\<close>
  for an unknown kind), then the column, looked up on the table and, failing that, on
  the dimension table (\<^verbatim>\<open>KeyError\<close> when it is on neither, or when there is no
  dimension table).
\<close>

definition aggregate_item ::
  "table \<Rightarrow> string \<Rightarrow> string \<Rightarrow> string option \<Rightarrow> table option \<Rightarrow> string option \<Rightarrow> pyerr + expr" where
  "aggregate_item table column_name aggregate alias_column dimension_table timestamp_col =
     (let alias = aggregate_alias column_name aggregate alias_column timestamp_col in
      case agg_map aggregate of
        None \<Rightarrow> Inl (ValueError (''Unsupported database aggregegate function '' @ aggregate))
      | Some agg_function \<Rightarrow>
          (case c_lookup table column_name of
             Inr col \<Rightarrow> Inr (Label (Func agg_function [col]) alias)
           | Inl _ \<Rightarrow>
               (case dimension_table of
                  None \<Rightarrow> Inl (KeyError (''Aggregate column '' @ column_name
                                          @ '' not present in table or on dimension''))
                | Some d \<Rightarrow>
                    (case c_lookup d column_name of
                       Inr col \<Rightarrow> Inr (Label (Func agg_function [col]) alias)
                     | Inl _ \<Rightarrow> Inl (KeyError (''Aggregate column '' @ column_name
                                          @ '' not present in table or on dimension''))))))"

text \<open>
  \<^verbatim>\<open>Database._is_not_null\<close>: the not-null condition on the column of the table or,
  failing that, of the dimension table; \<^verbatim>\<open>ValueError\<close> when it is on neither.
\<close>

definition is_not_null :: "table \<Rightarrow> table option \<Rightarrow> string \<Rightarrow> pyerr + pred" where
  "is_not_null table dimension_table column =
     (case c_lookup table column of
        Inr col \<Rightarrow> Inr (IsNotNull col)
      | Inl _ \<Rightarrow>
          (case dimension_table of
             None \<Rightarrow> Inl (ValueError (''Column '' @ column
                                       @ '' not found on time series or dimension table.''))
           | Some d \<Rightarrow>
               (case c_lookup d column of
                  Inr col \<Rightarrow> Inr (IsNotNull col)
                | Inl _ \<Rightarrow> Inl (ValueError (''Column '' @ column
                                       @ '' not found on time series or dimension table.'')))))"

section \<open>Strings: suffix test, slice and \<^verbatim>\<open>int()\<close>\<close>

text \<open>\<^verbatim>\<open>s.endswith(suf)\<close>.\<close>

definition endswith :: "string \<Rightarrow> string \<Rightarrow> bool" where
  "endswith s suf = (length suf \<le> length s \<and> drop (length s - length suf) s = suf)"

text \<open>\<^verbatim>\<open>s[:-n]\<close> for \<open>n > 0\<close>: all but the last \<open>n\<close> characters, empty for a shorter string.\<close>

definition drop_last :: "nat \<Rightarrow> string \<Rightarrow> string" where
  "drop_last n s = take (length s - n) s"

text \<open>
  \<^verbatim>\<open>int(s)\<close> for a string, base 10, on code points below 256: surrounding whitespace
  is stripped, one sign is allowed, then at least one decimal digit, with single
  underscores allowed between digits. \<open>None\<close> stands for the \<^verbatim>\<open>ValueError\<close>.
\<close>

definition is_space :: "char \<Rightarrow> bool" where
  "is_space c = ((of_char c :: nat) \<in> {9, 10, 11, 12, 13, 28, 29, 30, 31, 32, 133, 160})"

definition is_digit :: "char \<Rightarrow> bool" where
  "is_digit c = (48 \<le> (of_char c :: nat) \<and> (of_char c :: nat) \<le> 57)"

definition digit_val :: "char \<Rightarrow> nat" where
  "digit_val c = of_char c - 48"

fun digits_value :: "nat \<Rightarrow> string \<Rightarrow> nat option" where
  "digits_value acc [] = Some acc"
| "digits_value acc (c # cs) =
     (if is_digit c then digits_value (10 * acc + digit_val c) cs
      else if c = CHR ''_'' then
        (case cs of
           [] \<Rightarrow> None
         | d # ds \<Rightarrow> if is_digit d then digits_value (10 * acc + digit_val d) ds else None)
      else None)"

definition unsigned_int :: "string \<Rightarrow> nat option" where
  "unsigned_int s =
     (case s of
        [] \<Rightarrow> None
      | c # cs \<Rightarrow> if is_digit c then digits_value (digit_val c) cs else None)"

definition strip :: "string \<Rightarrow> string" where
  "strip s = rev (dropWhile is_space (rev (dropWhile is_space s)))"

definition py_int :: "string \<Rightarrow> int option" where
  "py_int s =
     (case strip s of
        [] \<Rightarrow> None
      | c # cs \<Rightarrow>
          if c = CHR ''-'' then map_option (\<lambda>n. - int n) (unsigned_int cs)
          else if c = CHR ''+'' then map_option int (unsigned_int cs)
          else map_option int (unsigned_int (c # cs)))"

text \<open>The \<^verbatim>\<open>ValueError\<close> of \<^verbatim>\<open>int\<close>, which quotes the string it was given.\<close>

definition int_error :: "string \<Rightarrow> pyerr" where
  "int_error s =
     ValueError (''invalid literal for int() with base 10: '' @ [CHR 0x27] @ s @ [CHR 0x27])"

section \<open>Time-grain resolution\<close>

text \<open>
  \<^verbatim>\<open>Database._ts_col_rounded_to_minutes\<close> and \<^verbatim>\<open>_ts_col_rounded_to_hours\<close>: the
  expressions that floor a timestamp column to a number of minutes within the hour, or
  of hours within the day.
\<close>

definition ts_col_rounded_to_minutes ::
  "database \<Rightarrow> string \<Rightarrow> string option \<Rightarrow> string \<Rightarrow> int \<Rightarrow> string \<Rightarrow> pyerr + expr" where
  "ts_col_rounded_to_minutes db table_name schema column_name minutes label =
     (case get_table db table_name schema of
        Inl e \<Rightarrow> Inl e
      | Inr a \<Rightarrow>
          (case c_lookup a column_name of
             Inl e \<Rightarrow> Inl e
           | Inr col \<Rightarrow>
               (let hour = Func ''add_hours'' [Func ''timestamp'' [Func ''date'' [col]],
                                               Func ''hour'' [col]];
                    min_col = Mul (Div (Func ''minute'' [col]) (Lit minutes)) (Lit minutes);
                    exp = Label (Func ''add_minutes'' [hour, min_col]) label
                in Inr exp)))"

definition ts_col_rounded_to_hours ::
  "database \<Rightarrow> string \<Rightarrow> string option \<Rightarrow> string \<Rightarrow> int \<Rightarrow> string \<Rightarrow> pyerr + expr" where
  "ts_col_rounded_to_hours db table_name schema column_name hours label =
     (case get_table db table_name schema of
        Inl e \<Rightarrow> Inl e
      | Inr a \<Rightarrow>
          (case c_lookup a column_name of
             Inl e \<Rightarrow> Inl e
           | Inr col \<Rightarrow>
               (let date_col = Func ''timestamp'' [Func ''date'' [col]];
                    hour_col = Mul (Div (Func ''hour'' [col]) (Lit hours)) (Lit hours);
                    exp = Label (Func ''add_hours'' [date_col, hour_col]) label
                in Inr exp)))"

text \<open>
  The calendar grains of \<^verbatim>\<open>query_agg\<close>: \<^verbatim>\<open>func.f(table.c[timestamp]).label(timestamp)\<close>.
\<close>

definition calendar_bucket :: "table \<Rightarrow> string \<Rightarrow> string \<Rightarrow> pyerr + expr" where
  "calendar_bucket table f timestamp =
     (case c_lookup table timestamp of
        Inl e \<Rightarrow> Inl e
      | Inr col \<Rightarrow> Inr (Label (Func f [col]) timestamp))"

text \<open>
  The time-grain block of \<^verbatim>\<open>query_agg\<close> (\<^verbatim>\<open>if time_grain is not None: ...\<close>): what
  it appends to \<^verbatim>\<open>grp\<close>, and \<^verbatim>\<open>pandas_aggregate\<close>. The branches are tried in the
  source's order; \<^verbatim>\<open>int\<close> raises for a prefix that is no integer.
\<close>

definition time_grain_group ::
  "database \<Rightarrow> table \<Rightarrow> string \<Rightarrow> string option \<Rightarrow> string option \<Rightarrow> string option
     \<Rightarrow> pyerr + (expr list \<times> string option)" where
  "time_grain_group db table table_name schema timestamp time_grain =
     (case time_grain of
        None \<Rightarrow> Inr ([], None)
      | Some tg \<Rightarrow>
          (case timestamp of
             None \<Rightarrow> Inl (ValueError
               ''You must supply a timestamp column when doing a time-based aggregate'')
           | Some ts \<Rightarrow>
               if tg = ts then
                 (case c_lookup table ts of
                    Inl e \<Rightarrow> Inl e
                  | Inr col \<Rightarrow> Inr ([Label col ts], None))
               else if endswith tg ''min'' then
                 (case py_int (drop_last 3 tg) of
                    None \<Rightarrow> Inl (int_error (drop_last 3 tg))
                  | Some minutes \<Rightarrow>
                      (case ts_col_rounded_to_minutes db table_name schema ts minutes ts of
                         Inl e \<Rightarrow> Inl e
                       | Inr exp \<Rightarrow> Inr ([exp], None)))
               else if endswith tg ''H'' then
                 (case py_int (drop_last 1 tg) of
                    None \<Rightarrow> Inl (int_error (drop_last 1 tg))
                  | Some hours \<Rightarrow>
                      (case ts_col_rounded_to_hours db table_name schema ts hours ts of
                         Inl e \<Rightarrow> Inl e
                       | Inr exp \<Rightarrow> Inr ([exp], None)))
               else if tg = ''day'' then
                 (case calendar_bucket table ''day'' ts of
                    Inl e \<Rightarrow> Inl e | Inr exp \<Rightarrow> Inr ([exp], None))
               else if tg = ''week'' then
                 (case calendar_bucket table ''this_week'' ts of
                    Inl e \<Rightarrow> Inl e | Inr exp \<Rightarrow> Inr ([exp], None))
               else if tg = ''month'' then
                 (case calendar_bucket table ''this_month'' ts of
                    Inl e \<Rightarrow> Inl e | Inr exp \<Rightarrow> Inr ([exp], None))
               else if tg = ''year'' then
                 (case calendar_bucket table ''this_year'' ts of
                    Inl e \<Rightarrow> Inl e | Inr exp \<Rightarrow> Inr ([exp], None))
               else Inr ([], Some tg)))"

section \<open>Queries\<close>

text \<open>
  A query object: the projection (\<^verbatim>\<open>session.query(*args)\<close>), the \<^verbatim>\<open>group_by\<close>
  expressions, the joins (target table and condition) and the conditions of the
  successive \<^verbatim>\<open>filter\<close> calls, in the order they were applied. A table given to
  \<^verbatim>\<open>session.query\<close> stands for all its columns.
\<close>

record query =
  q_args :: "expr list"
  q_group_by :: "expr list"
  q_joins :: "(string \<times> pred) list"
  q_filters :: "pred list"

definition table_columns :: "table \<Rightarrow> expr list" where
  "table_columns t = map (Col (tname t)) (tcols t)"

text \<open>\<^verbatim>\<open>table.c.name\<close>: attribute access raises \<^verbatim>\<open>AttributeError\<close> for a missing column.\<close>

definition c_attr :: "table \<Rightarrow> string \<Rightarrow> pyerr + expr" where
  "c_attr t n = (if n \<in> set (tcols t) then Inr (Col (tname t) n) else Inl (AttributeError n))"

text \<open>\<^verbatim>\<open>query.join(dim, dim.c.deviceid == table.c.deviceid)\<close>.\<close>

definition join_dimension :: "query \<Rightarrow> table \<Rightarrow> table \<Rightarrow> pyerr + query" where
  "join_dimension q dim table =
     (case c_attr dim ''deviceid'' of
        Inl e \<Rightarrow> Inl e
      | Inr l \<Rightarrow>
          (case c_attr table ''deviceid'' of
             Inl e \<Rightarrow> Inl e
           | Inr r \<Rightarrow> Inr (q\<lparr>q_joins := q_joins q @ [(tname dim, Eq l r)]\<rparr>)))"

text \<open>The optional dimension table of \<^verbatim>\<open>query\<close> and \<^verbatim>\<open>query_agg\<close>.\<close>

definition get_dimension :: "database \<Rightarrow> string option \<Rightarrow> string option \<Rightarrow> pyerr + table option" where
  "get_dimension db dimension schema =
     (case dimension of
        None \<Rightarrow> Inr None
      | Some d \<Rightarrow> (case get_table db d schema of Inl e \<Rightarrow> Inl e | Inr t \<Rightarrow> Inr (Some t)))"

text \<open>
  The projection loop of \<^verbatim>\<open>query\<close> over \<^verbatim>\<open>column_names\<close>: only \<^verbatim>\<open>KeyError\<close> is
  caught around \<^verbatim>\<open>dim.c[c]\<close>, so a missing dimension is an \<^verbatim>\<open>AttributeError\<close>.
\<close>

fun query_columns :: "table \<Rightarrow> table option \<Rightarrow> string \<Rightarrow> string list \<Rightarrow> pyerr + expr list" where
  "query_columns table dim table_name [] = Inr []"
| "query_columns table dim table_name (c # cs) =
     (case (case c_lookup table c of
              Inr col \<Rightarrow> Inr col
            | Inl _ \<Rightarrow>
                (case dim of
                   None \<Rightarrow> Inl (AttributeError ''c'')
                 | Some d \<Rightarrow>
                     (case c_lookup d c of
                        Inr col \<Rightarrow> Inr col
                      | Inl _ \<Rightarrow> Inl (KeyError (''Unable to find column '' @ c
                           @ '' in table or dimension for entity type '' @ table_name))))) of
        Inl e \<Rightarrow> Inl e
      | Inr col \<Rightarrow>
          (case query_columns table dim table_name cs of
             Inl e \<Rightarrow> Inl e
           | Inr cols \<Rightarrow> Inr (col # cols)))"

definition no_timestamp_col :: pyerr where
  "no_timestamp_col = ValueError
     ''No timestamp_col provided to query. Must provide a timestamp column if you have a date filter''"

text \<open>
  The three filters at the end of \<^verbatim>\<open>query\<close>: \<^verbatim>\<open>start_ts\<close>, \<^verbatim>\<open>end_ts\<close>, \<^verbatim>\<open>entities\<close>.
\<close>

definition filter_start :: "table \<Rightarrow> string option \<Rightarrow> int option \<Rightarrow> query \<Rightarrow> pyerr + query" where
  "filter_start table timestamp_col start_ts q =
     (case start_ts of
        None \<Rightarrow> Inr q
      | Some s \<Rightarrow>
          (case timestamp_col of
             None \<Rightarrow> Inl no_timestamp_col
           | Some ts \<Rightarrow>
               (case c_lookup table ts of
                  Inl e \<Rightarrow> Inl e
                | Inr col \<Rightarrow> Inr (q\<lparr>q_filters := q_filters q @ [Ge col s]\<rparr>))))"

definition filter_end :: "table \<Rightarrow> string option \<Rightarrow> int option \<Rightarrow> query \<Rightarrow> pyerr + query" where
  "filter_end table timestamp_col end_ts q =
     (case end_ts of
        None \<Rightarrow> Inr q
      | Some s \<Rightarrow>
          (case timestamp_col of
             None \<Rightarrow> Inl no_timestamp_col
           | Some ts \<Rightarrow>
               (case c_lookup table ts of
                  Inl e \<Rightarrow> Inl e
                | Inr col \<Rightarrow> Inr (q\<lparr>q_filters := q_filters q @ [Lt col s]\<rparr>))))"

definition filter_entities :: "table \<Rightarrow> string list option \<Rightarrow> query \<Rightarrow> pyerr + query" where
  "filter_entities table entities q =
     (case entities of
        None \<Rightarrow> Inr q
      | Some es \<Rightarrow>
          (case c_attr table ''deviceid'' of
             Inl e \<Rightarrow> Inl e
           | Inr col \<Rightarrow> Inr (q\<lparr>q_filters := q_filters q @ [InP col es]\<rparr>)))"

text \<open>
  \<^verbatim>\<open>Database.query\<close>. \<^verbatim>\<open>column_names\<close> is \<^verbatim>\<open>None\<close> or a list of names (a single
  string is a list of one).
\<close>

definition query ::
  "database \<Rightarrow> string \<Rightarrow> string option \<Rightarrow> string list option \<Rightarrow> string option
     \<Rightarrow> int option \<Rightarrow> int option \<Rightarrow> string list option \<Rightarrow> string option
     \<Rightarrow> pyerr + (query \<times> table)" where
  "query db table_name schema column_names timestamp_col start_ts end_ts entities dimension =
     (case get_table db table_name schema of
        Inl e \<Rightarrow> Inl e
      | Inr table \<Rightarrow>
     (case get_dimension db dimension schema of
        Inl e \<Rightarrow> Inl e
      | Inr dim \<Rightarrow>
     (case (case column_names of
              None \<Rightarrow>
                (case dim of
                   None \<Rightarrow> Inr (table_columns table)
                 | Some d \<Rightarrow> Inr (table_columns table
                     @ map (Col (tname d)) (filter (\<lambda>col_name. col_name \<noteq> ''deviceid'') (tcols d))))
            | Some names \<Rightarrow> query_columns table dim table_name names) of
        Inl e \<Rightarrow> Inl e
      | Inr query_args \<Rightarrow>
     (case (case dim of
              None \<Rightarrow> Inr \<lparr>q_args = query_args, q_group_by = [], q_joins = [], q_filters = []\<rparr>
            | Some d \<Rightarrow> join_dimension
                \<lparr>q_args = query_args, q_group_by = [], q_joins = [], q_filters = []\<rparr> d table) of
        Inl e \<Rightarrow> Inl e
      | Inr q0 \<Rightarrow>
     (case filter_start table timestamp_col start_ts q0 of
        Inl e \<Rightarrow> Inl e
      | Inr q1 \<Rightarrow>
     (case filter_end table timestamp_col end_ts q1 of
        Inl e \<Rightarrow> Inl e
      | Inr q2 \<Rightarrow>
     (case filter_entities table entities q2 of
        Inl e \<Rightarrow> Inl e
      | Inr q3 \<Rightarrow> Inr (q3, table))))))))"

section \<open>The aggregate query assembler\<close>

text \<open>
  A value of the aggregate dictionary: one aggregate kind, a list of kinds, or anything
  else. The dictionary is the list of its items in iteration order.
\<close>

datatype aggs = AggStr string | AggList "string list" | AggOther

type_synonym agg_dict = "(string \<times> aggs) list"

text \<open>
  \<^verbatim>\<open>agg_outputs[col][i]\<close> under \<^verbatim>\<open>except (KeyError, IndexError)\<close>: \<open>Inr None\<close> when one
  of the two caught exceptions was raised. With no alias table, subscripting \<^verbatim>\<open>None\<close>
  raises \<^verbatim>\<open>TypeError\<close>, which the handler does not catch.
\<close>

definition output_alias ::
  "(string \<Rightarrow> string list option) option \<Rightarrow> string \<Rightarrow> nat \<Rightarrow> pyerr + string option" where
  "output_alias agg_outputs col i =
     (case agg_outputs of
        None \<Rightarrow> Inl (TypeError ([CHR 0x27] @ ''NoneType'' @ [CHR 0x27]
                                 @ '' object is not subscriptable''))
      | Some outputs \<Rightarrow>
          (case outputs col of
             None \<Rightarrow> Inr None
           | Some names \<Rightarrow> if i < length names then Inr (Some (names ! i)) else Inr None))"

definition default_warning :: "string \<Rightarrow> string \<Rightarrow> string" where
  "default_warning col agg =
     ''No output item name specified for '' @ col @ '', '' @ agg @ ''. Using default.''"

text \<open>
  The inner loop \<^verbatim>\<open>for i,agg in enumerate(aggs)\<close>: the expressions appended to
  \<^verbatim>\<open>args\<close> and the warnings logged.
\<close>

fun aggregate_list ::
  "table \<Rightarrow> table option \<Rightarrow> string option \<Rightarrow> (string \<Rightarrow> string list option) option
     \<Rightarrow> string \<Rightarrow> nat \<Rightarrow> string list \<Rightarrow> pyerr + (expr list \<times> string list)" where
  "aggregate_list table dim timestamp agg_outputs col i [] = Inr ([], [])"
| "aggregate_list table dim timestamp agg_outputs col i (agg # rest) =
     (case output_alias agg_outputs col i of
        Inl e \<Rightarrow> Inl e
      | Inr found \<Rightarrow>
          (let output = (case found of Some name \<Rightarrow> name | None \<Rightarrow> col @ ''_'' @ agg);
               logged = (case found of Some name \<Rightarrow> [] | None \<Rightarrow> [default_warning col agg])
           in case aggregate_item table col agg (Some output) dim timestamp of
                Inl e \<Rightarrow> Inl e
              | Inr item \<Rightarrow>
                  (case aggregate_list table dim timestamp agg_outputs col (Suc i) rest of
                     Inl e \<Rightarrow> Inl e
                   | Inr (items, warnings) \<Rightarrow> Inr (item # items, logged @ warnings))))"

definition bad_agg_dict :: pyerr where
  "bad_agg_dict = ValueError
     ''Aggregate dictionary is not in the correct form. Supply a single aggregate function as a string or a list of strings.''"

text \<open>
  The outer loop \<^verbatim>\<open>for col,aggs in agg_dict.items()\<close>: \<^verbatim>\<open>args\<close>, \<^verbatim>\<open>metric_filter\<close>
  and the warnings logged.
\<close>

fun aggregate_columns ::
  "table \<Rightarrow> table option \<Rightarrow> string option \<Rightarrow> (string \<Rightarrow> string list option) option
     \<Rightarrow> agg_dict \<Rightarrow> pyerr + (expr list \<times> pred list \<times> string list)" where
  "aggregate_columns table dim timestamp agg_outputs [] = Inr ([], [], [])"
| "aggregate_columns table dim timestamp agg_outputs ((col, a) # rest) =
     (case (case a of
              AggStr agg \<Rightarrow>
                (case aggregate_item table col agg None dim timestamp of
                   Inl e \<Rightarrow> Inl e
                 | Inr item \<Rightarrow> Inr ([item], []))
            | AggList kinds \<Rightarrow> aggregate_list table dim timestamp agg_outputs col 0 kinds
            | AggOther \<Rightarrow> Inl bad_agg_dict) of
        Inl e \<Rightarrow> Inl e
      | Inr (items, logged) \<Rightarrow>
          (case is_not_null table dim col of
             Inl e \<Rightarrow> Inl e
           | Inr p \<Rightarrow>
               (case aggregate_columns table dim timestamp agg_outputs rest of
                  Inl e \<Rightarrow> Inl e
                | Inr (args, metric_filter, warnings) \<Rightarrow>
                    Inr (items @ args, p # metric_filter, logged @ warnings))))"

text \<open>
  One round of the loop \<^verbatim>\<open>for g in groupby\<close>. The source tests \<^verbatim>\<open>dimension is not None\<close>,
  which holds exactly when \<^verbatim>\<open>dim\<close> is a table.
\<close>

definition groupby_column :: "table \<Rightarrow> table option \<Rightarrow> string \<Rightarrow> pyerr + expr" where
  "groupby_column table dim g =
     (case c_lookup table g of
        Inr col \<Rightarrow> Inr col
      | Inl _ \<Rightarrow>
          (case dim of
             Some d \<Rightarrow>
               (case c_lookup d g of
                  Inr col \<Rightarrow> Inr col
                | Inl _ \<Rightarrow> Inl (ValueError (''group by column '' @ g
                                    @ '' not found in main table or dimension table'')))
           | None \<Rightarrow> Inl (KeyError (''group by column '' @ g
                                    @ '' not found in main table and no dimension table specified''))))"

fun groupby_columns :: "table \<Rightarrow> table option \<Rightarrow> string list \<Rightarrow> pyerr + expr list" where
  "groupby_columns table dim [] = Inr []"
| "groupby_columns table dim (g # gs) =
     (case groupby_column table dim g of
        Inl e \<Rightarrow> Inl e
      | Inr col \<Rightarrow>
          (case groupby_columns table dim gs of
             Inl e \<Rightarrow> Inl e
           | Inr cols \<Rightarrow> Inr (col # cols)))"

text \<open>The \<^verbatim>\<open>groupby\<close> argument: \<^verbatim>\<open>None\<close>, one name or a list of names.\<close>

datatype groupby_arg = GroupStr string | GroupList "string list"

fun groupby_list :: "groupby_arg option \<Rightarrow> string list option" where
  "groupby_list None = None"
| "groupby_list (Some (GroupStr g)) = Some [g]"
| "groupby_list (Some (GroupList gs)) = Some gs"

text \<open>
  What \<^verbatim>\<open>query_agg\<close> returns, \<^verbatim>\<open>(query,table,dim,pandas_aggregate,agg_dict)\<close>, and
  the warnings it logged on the way.
\<close>

record agg_result =
  r_query :: query
  r_table :: table
  r_dim :: "table option"
  r_pandas_aggregate :: "string option"
  r_agg_dict :: agg_dict
  r_warnings :: "string list"

text \<open>
  \<^verbatim>\<open>Database.query_agg\<close>. With no \<^verbatim>\<open>pandas_aggregate\<close> the query is built from
  \<^verbatim>\<open>args\<close> and \<^verbatim>\<open>grp\<close> and joined to the dimension; otherwise it is the query of
  \<^verbatim>\<open>Database.query\<close>. Either way the disjunction of \<^verbatim>\<open>metric_filter\<close> is the last
  filter.
\<close>

definition query_agg ::
  "database \<Rightarrow> string \<Rightarrow> string option \<Rightarrow> agg_dict \<Rightarrow> (string \<Rightarrow> string list option) option
     \<Rightarrow> groupby_arg option \<Rightarrow> string option \<Rightarrow> string option \<Rightarrow> string option
     \<Rightarrow> int option \<Rightarrow> int option \<Rightarrow> string list option \<Rightarrow> pyerr + agg_result" where
  "query_agg db table_name schema agg_dict agg_outputs groupby timestamp time_grain dimension
       start_ts end_ts entities =
     (case get_table db table_name schema of
        Inl e \<Rightarrow> Inl e
      | Inr table \<Rightarrow>
     (case get_dimension db dimension schema of
        Inl e \<Rightarrow> Inl e
      | Inr dim \<Rightarrow>
     (case aggregate_columns table dim timestamp agg_outputs agg_dict of
        Inl e \<Rightarrow> Inl e
      | Inr (args, metric_filter, warnings) \<Rightarrow>
     (case time_grain_group db table table_name schema timestamp time_grain of
        Inl e \<Rightarrow> Inl e
      | Inr (time_grp, pandas_aggregate) \<Rightarrow>
     (case groupby_columns table dim (case groupby_list groupby of None \<Rightarrow> [] | Some gs \<Rightarrow> gs) of
        Inl e \<Rightarrow> Inl e
      | Inr group_cols \<Rightarrow>
     (let grp = time_grp @ group_cols;
          args = args @ grp
      in case (case pandas_aggregate of
                 None \<Rightarrow>
                   (let q = \<lparr>q_args = args, q_group_by = grp, q_joins = [], q_filters = []\<rparr>
                    in case dim of
                         None \<Rightarrow> Inr (q, table)
                       | Some d \<Rightarrow>
                           (case join_dimension q d table of
                              Inl e \<Rightarrow> Inl e
                            | Inr q' \<Rightarrow> Inr (q', table)))
               | Some _ \<Rightarrow>
                   query db table_name schema None timestamp start_ts end_ts entities dimension) of
           Inl e \<Rightarrow> Inl e
         | Inr (q, table') \<Rightarrow>
             Inr \<lparr>r_query = q\<lparr>q_filters := q_filters q @ [OrP metric_filter]\<rparr>,
                  r_table = table',
                  r_dim = dim,
                  r_pandas_aggregate = pandas_aggregate,
                  r_agg_dict = agg_dict,
                  r_warnings = warnings\<rparr>))))))"

section \<open>The dual-aggregate join\<close>

text \<open>
  The name under which a projected expression appears in \<^verbatim>\<open>subquery.c\<close>: its label,
  or the column's own name. Every projection entry of a query built by \<^verbatim>\<open>query\<close> or
  \<^verbatim>\<open>query_agg\<close> is a column or a labelled expression; for the other forms SQLAlchemy
  generates an anonymous name, written here as a fixed one.
\<close>

fun expr_name :: "expr \<Rightarrow> string" where
  "expr_name (Label e a) = a"
| "expr_name (Col t c) = c"
| "expr_name (Func f args) = f @ ''_1''"
| "expr_name (Lit n) = ''param_1''"
| "expr_name (Div a b) = ''anon_1''"
| "expr_name (Mul a b) = ''anon_1''"

text \<open>
  The column collection \<^verbatim>\<open>subquery.c\<close> is keyed by name: a second projected expression
  of a name already there takes over the entry of the first and adds none. Its keys are
  the names in order of first occurrence, each once.
\<close>

fun collection_keys :: "string list \<Rightarrow> string list" where
  "collection_keys [] = []"
| "collection_keys (n # ns) = n # filter (\<lambda>m. m \<noteq> n) (collection_keys ns)"

definition subquery_names :: "query \<Rightarrow> string list" where
  "subquery_names q = collection_keys (map expr_name (q_args q))"

text \<open>\<^verbatim>\<open>q.subquery(alias).c[name]\<close>.\<close>

definition subquery_c :: "string \<Rightarrow> query \<Rightarrow> string \<Rightarrow> pyerr + expr" where
  "subquery_c alias q n =
     (if n \<in> set (subquery_names q) then Inr (Col alias n) else Inl (KeyError n))"

text \<open>A positional argument of \<^verbatim>\<open>subquery_join\<close>: a common name, or a pair of names.\<close>

datatype join_key = KeyStr string | KeyPair string string

fun join_conditions :: "query \<Rightarrow> query \<Rightarrow> join_key list \<Rightarrow> pyerr + pred list" where
  "join_conditions left_query right_query [] = Inr []"
| "join_conditions left_query right_query (k # ks) =
     (let names = (case k of KeyStr col \<Rightarrow> (col, col) | KeyPair l r \<Rightarrow> (l, r)) in
      case subquery_c ''a'' left_query (fst names) of
        Inl e \<Rightarrow> Inl e
      | Inr l \<Rightarrow>
          (case subquery_c ''b'' right_query (snd names) of
             Inl e \<Rightarrow> Inl e
           | Inr r \<Rightarrow>
               (case join_conditions left_query right_query ks of
                  Inl e \<Rightarrow> Inl e
                | Inr joins \<Rightarrow> Inr (Eq l r # joins))))"

text \<open>
  The loop over \<^verbatim>\<open>kwargs.items()\<close>: the labelled right-hand columns. The keyword
  arguments are the list of (column, alias) items in order.
\<close>

fun right_projection :: "query \<Rightarrow> (string \<times> string) list \<Rightarrow> pyerr + expr list" where
  "right_projection right_query [] = Inr []"
| "right_projection right_query ((col, alias) # rest) =
     (case subquery_c ''b'' right_query col of
        Inl e \<Rightarrow> Inl e
      | Inr c \<Rightarrow>
          (case right_projection right_query rest of
             Inl e \<Rightarrow> Inl e
           | Inr cs \<Rightarrow> Inr (Label c alias # cs)))"

text \<open>
  The result of \<^verbatim>\<open>subquery_join\<close>: \<^verbatim>\<open>select(projection_list).select_from(join)\<close>,
  the join being of subquery \<^verbatim>\<open>a\<close> (left) with subquery \<^verbatim>\<open>b\<close> (right).
\<close>

record join_query =
  j_left :: query
  j_right :: query
  j_condition :: pred
  j_projection :: "expr list"

text \<open>\<^verbatim>\<open>Database.subquery_join\<close>.\<close>

definition subquery_join ::
  "query \<Rightarrow> query \<Rightarrow> join_key list \<Rightarrow> (string \<times> string) list \<Rightarrow> pyerr + join_query" where
  "subquery_join left_query right_query args kwargs =
     (case join_conditions left_query right_query args of
        Inl e \<Rightarrow> Inl e
      | Inr joins \<Rightarrow>
          (case right_projection right_query kwargs of
             Inl e \<Rightarrow> Inl e
           | Inr right_cols \<Rightarrow>
               (let covered_columns = map snd kwargs;
                    left_cols = map (Col ''a'')
                      (filter (\<lambda>name. name \<notin> set covered_columns) (subquery_names left_query))
                in Inr \<lparr>j_left = left_query,
                        j_right = right_query,
                        j_condition = AndP joins,
                        j_projection = right_cols @ left_cols\<rparr>)))"

text \<open>Truth of \<^verbatim>\<open>pandas_aggregate\<close> in \<^verbatim>\<open>if pandas_aggregate:\<close>.\<close>

fun truthy :: "string option \<Rightarrow> bool" where
  "truthy None = False"
| "truthy (Some s) = (s \<noteq> [])"

definition not_pushable :: pyerr where
  "not_pushable = ValueError
     ''Attempting to db time aggregation on a query cannot be pushed to the database. Perform the time aggregation in Pandas.''"

definition invalid_time_aggregate :: "string \<Rightarrow> pyerr" where
  "invalid_time_aggregate time_agg =
     ValueError (''Invalid time aggregate '' @ time_agg @ ''. Use '' @ [CHR 0x22] @ ''first''
                 @ [CHR 0x22] @ '' or '' @ [CHR 0x22] @ ''last'' @ [CHR 0x22])"

text \<open>
  \<^verbatim>\<open>Database.query_time_agg\<close> (its unused \<^verbatim>\<open>output_item\<close> left out). The first
  \<^verbatim>\<open>query_agg\<close> is called with \<^verbatim>\<open>time_grain = timestamp\<close>, and
  \<^verbatim>\<open>pandas_aggregate\<close> is tested after the first call only. Without a timestamp the
  second aggregate dictionary has the key \<^verbatim>\<open>None\<close>, which \<^verbatim>\<open>_aggregate_item\<close> finds
  on no table. \<^verbatim>\<open>keys.extend(groupby)\<close> raises \<^verbatim>\<open>TypeError\<close> for \<^verbatim>\<open>None\<close>.
\<close>

definition query_time_agg ::
  "database \<Rightarrow> string \<Rightarrow> string option \<Rightarrow> string \<Rightarrow> aggs \<Rightarrow> string \<Rightarrow> groupby_arg option
     \<Rightarrow> string option \<Rightarrow> string option \<Rightarrow> string option
     \<Rightarrow> int option \<Rightarrow> int option \<Rightarrow> string list option \<Rightarrow> pyerr + (join_query \<times> table)" where
  "query_time_agg db table_name schema column regular_agg time_agg groupby timestamp time_grain
       dimension start_ts end_ts entities =
     (let groupby = map_option GroupList (groupby_list groupby) in
      case query_agg db table_name schema [(column, regular_agg)] None groupby timestamp timestamp
             dimension start_ts end_ts entities of
        Inl e \<Rightarrow> Inl e
      | Inr a \<Rightarrow>
          if truthy (r_pandas_aggregate a) then Inl not_pushable
          else
            (case (if time_agg = ''first'' then Inr ''min''
                   else if time_agg = ''last'' then Inr ''max''
                   else Inl (invalid_time_aggregate time_agg)) of
               Inl e \<Rightarrow> Inl e
             | Inr kind \<Rightarrow>
                 (case timestamp of
                    None \<Rightarrow> Inl (KeyError
                      ''Aggregate column None not present in table or on dimension'')
                  | Some ts \<Rightarrow>
                      (case query_agg db table_name schema [(ts, AggStr kind)] None groupby
                              timestamp time_grain None start_ts end_ts entities of
                         Inl e \<Rightarrow> Inl e
                       | Inr b \<Rightarrow>
                           (let right_timestamp = time_agg @ ''_'' @ ts in
                            case groupby_list groupby of
                              None \<Rightarrow> Inl (TypeError ([CHR 0x27] @ ''NoneType'' @ [CHR 0x27]
                                                      @ '' object is not iterable''))
                            | Some gs \<Rightarrow>
                                (let keys = KeyPair ts right_timestamp # map KeyStr gs;
                                     right_cols = [(right_timestamp, right_timestamp), (ts, ts)]
                                 in case subquery_join (r_query a) (r_query b) keys right_cols of
                                      Inl e \<Rightarrow> Inl e
                                    | Inr q \<Rightarrow> Inr (q, r_table b)))))))"

section \<open>Evaluation of expressions and conditions on a row\<close>

text \<open>
  Modelled from the spec: the database that evaluates the planner's expressions is not
  part of the repository. A row gives each column a value; a timestamp is a number of
  seconds since the epoch and a date a number of days. \<^verbatim>\<open>date\<close>, \<^verbatim>\<open>hour\<close> and
  \<^verbatim>\<open>minute\<close> take the parts of a timestamp, \<^verbatim>\<open>timestamp\<close> gives midnight of a date,
  \<^verbatim>\<open>add_hours\<close> and \<^verbatim>\<open>add_minutes\<close> move a timestamp, and \<^verbatim>\<open>/\<close> between integers
  is integer division (truncating, an error for a zero divisor), as the spec's note on
  minute flooring has it. \<open>None\<close> is an expression this model gives no value.
\<close>

datatype val = VNull | VInt int | VTimestamp int | VDate int | VStr string

type_synonym row = "string \<times> string \<Rightarrow> val"

definition date_of :: "int \<Rightarrow> int" where
  "date_of t = t div 86400"

definition hour_of :: "int \<Rightarrow> int" where
  "hour_of t = (t div 3600) mod 24"

definition minute_of :: "int \<Rightarrow> int" where
  "minute_of t = (t div 60) mod 60"

definition trunc_div :: "int \<Rightarrow> int \<Rightarrow> int" where
  "trunc_div x y = sgn x * sgn y * (\<bar>x\<bar> div \<bar>y\<bar>)"

definition sql_func :: "string \<Rightarrow> val list \<Rightarrow> val option" where
  "sql_func f vs =
     (case vs of
        [VTimestamp t] \<Rightarrow>
          (if f = ''date'' then Some (VDate (date_of t))
           else if f = ''hour'' then Some (VInt (hour_of t))
           else if f = ''minute'' then Some (VInt (minute_of t))
           else None)
      | [VDate d] \<Rightarrow> (if f = ''timestamp'' then Some (VTimestamp (d * 86400)) else None)
      | [VTimestamp t, VInt n] \<Rightarrow>
          (if f = ''add_hours'' then Some (VTimestamp (t + 3600 * n))
           else if f = ''add_minutes'' then Some (VTimestamp (t + 60 * n))
           else None)
      | _ \<Rightarrow> None)"

fun eval :: "row \<Rightarrow> expr \<Rightarrow> val option" where
  "eval r (Col t c) = Some (r (t, c))"
| "eval r (Lit n) = Some (VInt n)"
| "eval r (Label e a) = eval r e"
| "eval r (Div a b) =
     (case (eval r a, eval r b) of
        (Some (VInt x), Some (VInt y)) \<Rightarrow> if y = 0 then None else Some (VInt (trunc_div x y))
      | _ \<Rightarrow> None)"
| "eval r (Mul a b) =
     (case (eval r a, eval r b) of
        (Some (VInt x), Some (VInt y)) \<Rightarrow> Some (VInt (x * y))
      | _ \<Rightarrow> None)"
| "eval r (Func f args) =
     (case those (map (eval r) args) of
        None \<Rightarrow> None
      | Some vs \<Rightarrow> sql_func f vs)"

text \<open>
  Whether a row passes a condition. An \<^verbatim>\<open>or_\<close> or \<^verbatim>\<open>and_\<close> of no conditions renders
  as no condition at all, so every row passes it.
\<close>

fun pred_holds :: "row \<Rightarrow> pred \<Rightarrow> bool" where
  "pred_holds r (IsNotNull e) = (case eval r e of Some v \<Rightarrow> v \<noteq> VNull | None \<Rightarrow> False)"
| "pred_holds r (Ge e s) = (case eval r e of Some (VTimestamp t) \<Rightarrow> s \<le> t | _ \<Rightarrow> False)"
| "pred_holds r (Lt e s) = (case eval r e of Some (VTimestamp t) \<Rightarrow> t < s | _ \<Rightarrow> False)"
| "pred_holds r (InP e names) = (case eval r e of Some (VStr x) \<Rightarrow> x \<in> set names | _ \<Rightarrow> False)"
| "pred_holds r (Eq a b) =
     (case (eval r a, eval r b) of
        (Some x, Some y) \<Rightarrow> x \<noteq> VNull \<and> x = y
      | _ \<Rightarrow> False)"
| "pred_holds r (OrP ps) = (ps = [] \<or> list_ex (pred_holds r) ps)"
| "pred_holds r (AndP ps) = list_all (pred_holds r) ps"

section \<open>Notions used to state the properties\<close>

text \<open>
  The table a column name resolves against under the lookup order of \<^verbatim>\<open>_is_not_null\<close>
  and \<^verbatim>\<open>_aggregate_item\<close>: the time-series table when it has the column, else the
  dimension table.
\<close>

definition column_source :: "table \<Rightarrow> table option \<Rightarrow> string \<Rightarrow> string" where
  "column_source table dim col =
     (if col \<in> set (tcols table) then tname table
      else case dim of Some d \<Rightarrow> tname d | None \<Rightarrow> tname table)"

text \<open>
  A group-by name is on the tables when the time-series table has a column of that name
  or, failing that, the dimension table has one.
\<close>

definition on_tables :: "table \<Rightarrow> table option \<Rightarrow> string \<Rightarrow> bool" where
  "on_tables table dim g =
     (g \<in> set (tcols table) \<or> (case dim of Some d \<Rightarrow> g \<in> set (tcols d) | None \<Rightarrow> False))"

section \<open>Example data\<close>

text \<open>
  A time-series table with its entity key, timestamp, metrics and a site column, the
  database that holds it, and a second table that also carries a column named
  \<^verbatim>\<open>last_evt_timestamp\<close>.
\<close>

definition sensor_table :: table where
  "sensor_table =
     \<lparr>tname = ''sensor'',
      tcols = [''deviceid'', ''evt_timestamp'', ''energy'', ''site'', ''temp'', ''pressure'']\<rparr>"

definition rollup_table :: table where
  "rollup_table =
     \<lparr>tname = ''rollup'',
      tcols = [''deviceid'', ''evt_timestamp'', ''energy'', ''site'', ''last_evt_timestamp'']\<rparr>"

definition sensor_db :: database where
  "sensor_db = (\<lambda>k. if k = (None, ''sensor'') then Some sensor_table
                     else if k = (None, ''rollup'') then Some rollup_table
                     else None)"

text \<open>
  Two aggregated queries to join: a rollup with columns \<^verbatim>\<open>site\<close> and
  \<^verbatim>\<open>total_energy\<close>, and one with \<^verbatim>\<open>last_evt_timestamp\<close> per site.
\<close>

definition energy_rollup :: query where
  "energy_rollup =
     \<lparr>q_args = [Col ''sensor'' ''site'',
                 Label (Func ''sum'' [Col ''sensor'' ''energy'']) ''total_energy''],
      q_group_by = [Col ''sensor'' ''site''],
      q_joins = [],
      q_filters = [OrP [IsNotNull (Col ''sensor'' ''energy'')]]\<rparr>"

definition last_event_rollup :: query where
  "last_event_rollup =
     \<lparr>q_args = [Label (Func ''max'' [Col ''sensor'' ''evt_timestamp'']) ''last_evt_timestamp'',
                 Col ''sensor'' ''site''],
      q_group_by = [Col ''sensor'' ''site''],
      q_joins = [],
      q_filters = [OrP [IsNotNull (Col ''sensor'' ''evt_timestamp'')]]\<rparr>"

text \<open>
  A rollup whose projection has two expressions named \<^verbatim>\<open>site\<close>: the count of the
  column and the group-by column itself.
\<close>

definition site_count_rollup :: query where
  "site_count_rollup =
     \<lparr>q_args = [Label (Func ''count'' [Col ''sensor'' ''site'']) ''site'',
                 Label (Col ''sensor'' ''evt_timestamp'') ''evt_timestamp'',
                 Col ''sensor'' ''site''],
      q_group_by = [Label (Col ''sensor'' ''evt_timestamp'') ''evt_timestamp'',
                    Col ''sensor'' ''site''],
      q_joins = [],
      q_filters = [OrP [IsNotNull (Col ''sensor'' ''site'')]]\<rparr>"

section \<open>Shared lemmas\<close>

lemma set_collection_keys: "set (collection_keys ns) = set ns"
  by (induction ns) auto

lemma distinct_collection_keys: "distinct (collection_keys ns)"
  by (induction ns) (auto simp: set_collection_keys)

lemma collection_keys_distinct: "distinct ns \<Longrightarrow> collection_keys ns = ns"
  by (induction ns) (auto simp: set_collection_keys filter_id_conv)

lemma is_not_null_Inr:
  "is_not_null table dim col = Inr p \<Longrightarrow> p = IsNotNull (Col (column_source table dim col) col)"
  by (auto simp: is_not_null_def c_lookup_def column_source_def split: if_splits option.splits)

lemma aggregate_columns_filter:
  "aggregate_columns table dim timestamp agg_outputs agg_dict = Inr (args, metric_filter, warnings)
   \<Longrightarrow> metric_filter =
         map (\<lambda>col. IsNotNull (Col (column_source table dim col) col)) (map fst agg_dict)"
proof (induction agg_dict arbitrary: args metric_filter warnings)
  case Nil
  then show ?case by simp
next
  case (Cons item rest)
  obtain col a where item: "item = (col, a)" by (cases item)
  from Cons.prems item obtain p args' mf' ws' where
    p: "is_not_null table dim col = Inr p" and
    rest: "aggregate_columns table dim timestamp agg_outputs rest = Inr (args', mf', ws')" and
    mf: "metric_filter = p # mf'"
    by (auto split: sum.splits prod.splits)
  from Cons.IH[OF rest] is_not_null_Inr[OF p] mf item show ?case by simp
qed

lemma query_table:
  "query db table_name schema column_names timestamp_col start_ts end_ts entities dimension
     = Inr (q, t) \<Longrightarrow> get_table db table_name schema = Inr t"
  by (auto simp: query_def split: sum.splits)

lemma query_agg_parts:
  assumes "query_agg db table_name schema agg_dict agg_outputs groupby timestamp time_grain
             dimension start_ts end_ts entities = Inr res"
  shows "\<exists>table dim args mf ws fs.
           get_table db table_name schema = Inr table \<and>
           get_dimension db dimension schema = Inr dim \<and>
           aggregate_columns table dim timestamp agg_outputs agg_dict = Inr (args, mf, ws) \<and>
           q_filters (r_query res) = fs @ [OrP mf] \<and> r_table res = table \<and> r_dim res = dim
           \<and> r_warnings res = ws"
  using assms
  by (auto simp: query_agg_def Let_def split: sum.splits prod.splits option.splits
           dest: query_table)

lemma or_not_null_holds:
  "cols \<noteq> [] \<Longrightarrow>
   pred_holds row (OrP (map (\<lambda>col. IsNotNull (Col (src col) col)) cols))
     = (\<exists>col\<in>set cols. row (src col, col) \<noteq> VNull)"
  by (auto simp: list_ex_iff)

lemma right_projection_Inr:
  "right_projection right_query kwargs = Inr cs \<Longrightarrow>
   cs = map (\<lambda>(col, alias). Label (Col ''b'' col) alias) kwargs"
  by (induction kwargs arbitrary: cs) (auto simp: subquery_c_def split: sum.splits if_splits)

section \<open>The alias policy of the aggregate expression builder\<close>

text \<open>
  C2. With no explicit alias and the column equal to the timestamp column, the alias is
  to be \<open>first_<timestamp>\<close> for \<open>min\<close>, \<open>last_<timestamp>\<close> for \<open>max\<close> and
  \<open><kind>_<timestamp>\<close> for every other supported kind. For the kind \<open>sum\<close> on the
  timestamp column \<open>evt_timestamp\<close> the builder labels the aggregate
  \<open>None_evt_timestamp\<close>, not \<open>sum_evt_timestamp\<close>: the last branch formats the alias
  argument, which is \<open>None\<close> there, in place of the aggregate kind.
\<close>

theorem aggregate_item_timestamp_sum_alias:
  "aggregate_item sensor_table ''evt_timestamp'' ''sum'' None None (Some ''evt_timestamp'')
     = Inr (Label (Func ''sum'' [Col ''sensor'' ''evt_timestamp'']) ''None_evt_timestamp'')"
  by (simp add: aggregate_item_def aggregate_alias_def agg_map_def c_lookup_def sensor_table_def)

text \<open>
  What holds: the label of the built expression is the alias settled on; an explicit
  alias wins, \<open>min\<close> and \<open>max\<close> on the timestamp column give \<open>first_\<close> and \<open>last_\<close>,
  and any other column defaults to its own name.
\<close>

lemma aggregate_item_alias:
  "aggregate_item table column_name aggregate alias_column dim timestamp_col = Inr e \<Longrightarrow>
   expr_name e = aggregate_alias column_name aggregate alias_column timestamp_col"
  by (auto simp: aggregate_item_def Let_def split: option.splits sum.splits)

lemma aggregate_alias_policy:
  "aggregate_alias column_name aggregate (Some alias) timestamp_col = alias"
  "aggregate_alias column_name ''min'' None (Some column_name) = ''first_'' @ column_name"
  "aggregate_alias column_name ''max'' None (Some column_name) = ''last_'' @ column_name"
  "timestamp_col \<noteq> Some column_name \<Longrightarrow>
     aggregate_alias column_name aggregate None timestamp_col = column_name"
  by (simp_all add: aggregate_alias_def)

section \<open>The not-null filter\<close>

text \<open>
  C8, as stated: for every aggregate spec a row is kept exactly when at least one
  aggregated column is not null in it. For the empty spec there is no aggregated column,
  yet the disjunction of no conditions renders no condition and every row is kept.
\<close>

theorem not_null_filter_empty_spec_counterexample:
  "\<not> (\<forall>res row. query_agg sensor_db ''sensor'' None [] None (Some (GroupList [''site'']))
                    None None None None None None = Inr res \<longrightarrow>
          pred_holds row (last (q_filters (r_query res)))
            = (\<exists>col\<in>set (map fst ([] :: agg_dict)).
                 row (column_source (r_table res) (r_dim res) col, col) \<noteq> VNull))"
proof -
  have run: "query_agg sensor_db ''sensor'' None [] None (Some (GroupList [''site'']))
               None None None None None None
             = Inr \<lparr>r_query = \<lparr>q_args = [Col ''sensor'' ''site''],
                                q_group_by = [Col ''sensor'' ''site''],
                                q_joins = [], q_filters = [OrP []]\<rparr>,
                    r_table = sensor_table, r_dim = None, r_pandas_aggregate = None,
                    r_agg_dict = [], r_warnings = []\<rparr>"
    by code_simp
  show ?thesis
    unfolding run by simp
qed

text \<open>
  C8, amended. Whenever \<open>query_agg\<close> returns a plan, pushed down or fallback, its last
  filter is the disjunction of one not-null condition per key of the aggregate
  dictionary, each on the column as resolved against the table or the dimension, and of
  nothing else; for a non-empty dictionary a row passes it exactly when at least one
  aggregated column is not null in that row, and for the empty dictionary every row
  passes it.
\<close>

theorem not_null_filter:
  assumes "query_agg db table_name schema agg_dict agg_outputs groupby timestamp time_grain
             dimension start_ts end_ts entities = Inr res"
  shows "(\<exists>fs. q_filters (r_query res) = fs @
            [OrP (map (\<lambda>col. IsNotNull (Col (column_source (r_table res) (r_dim res) col) col))
                      (map fst agg_dict))]) \<and>
         (agg_dict \<noteq> [] \<longrightarrow>
            (\<forall>row. pred_holds row (last (q_filters (r_query res)))
               = (\<exists>col\<in>set (map fst agg_dict).
                    row (column_source (r_table res) (r_dim res) col, col) \<noteq> VNull))) \<and>
         (agg_dict = [] \<longrightarrow> (\<forall>row. pred_holds row (last (q_filters (r_query res)))))"
proof -
  from query_agg_parts[OF assms] obtain table dim args mf ws fs where
    ac: "aggregate_columns table dim timestamp agg_outputs agg_dict = Inr (args, mf, ws)" and
    f: "q_filters (r_query res) = fs @ [OrP mf]" and
    r: "r_table res = table" "r_dim res = dim"
    by blast
  have mf: "mf = map (\<lambda>col. IsNotNull (Col (column_source table dim col) col)) (map fst agg_dict)"
    by (rule aggregate_columns_filter[OF ac])
  have last: "last (q_filters (r_query res)) = OrP mf"
    using f by simp
  have "pred_holds row (OrP mf)
          = (\<exists>col\<in>set (map fst agg_dict). row (column_source table dim col, col) \<noteq> VNull)"
    if "agg_dict \<noteq> []" for row
    unfolding mf using that by (intro or_not_null_holds) simp
  moreover have "pred_holds row (OrP mf)" if "agg_dict = []" for row
    unfolding mf using that by simp
  ultimately show ?thesis using f mf r last by simp
qed

theorem not_null_filter_witness:
  "(\<exists>res. query_agg sensor_db ''sensor'' None [(''temp'', AggStr ''mean'')] None None
             (Some ''evt_timestamp'') (Some ''day'') None None None None = Inr res \<and>
          r_pandas_aggregate res = None \<and>
          q_filters (r_query res) = [OrP [IsNotNull (Col ''sensor'' ''temp'')]] \<and>
          (\<forall>row. pred_holds row (last (q_filters (r_query res)))
                   = (row (''sensor'', ''temp'') \<noteq> VNull))) \<and>
   (\<exists>res. query_agg sensor_db ''sensor'' None [(''temp'', AggStr ''mean'')] None None
             (Some ''evt_timestamp'') (Some ''W-MON'') None None None None = Inr res \<and>
          r_pandas_aggregate res = Some ''W-MON'' \<and>
          q_filters (r_query res) = [OrP [IsNotNull (Col ''sensor'' ''temp'')]] \<and>
          (\<forall>row. pred_holds row (last (q_filters (r_query res)))
                   = (row (''sensor'', ''temp'') \<noteq> VNull)))"
proof -
  have day: "query_agg sensor_db ''sensor'' None [(''temp'', AggStr ''mean'')] None None
               (Some ''evt_timestamp'') (Some ''day'') None None None None
             = Inr \<lparr>r_query =
                     \<lparr>q_args = [Label (Func ''avg'' [Col ''sensor'' ''temp'']) ''temp'',
                                 Label (Func ''day'' [Col ''sensor'' ''evt_timestamp''])
                                   ''evt_timestamp''],
                      q_group_by = [Label (Func ''day'' [Col ''sensor'' ''evt_timestamp''])
                                      ''evt_timestamp''],
                      q_joins = [],
                      q_filters = [OrP [IsNotNull (Col ''sensor'' ''temp'')]]\<rparr>,
                    r_table = sensor_table, r_dim = None, r_pandas_aggregate = None,
                    r_agg_dict = [(''temp'', AggStr ''mean'')], r_warnings = []\<rparr>"
    by code_simp
  have week: "query_agg sensor_db ''sensor'' None [(''temp'', AggStr ''mean'')] None None
               (Some ''evt_timestamp'') (Some ''W-MON'') None None None None
             = Inr \<lparr>r_query =
                     \<lparr>q_args = table_columns sensor_table,
                      q_group_by = [],
                      q_joins = [],
                      q_filters = [OrP [IsNotNull (Col ''sensor'' ''temp'')]]\<rparr>,
                    r_table = sensor_table, r_dim = None, r_pandas_aggregate = Some ''W-MON'',
                    r_agg_dict = [(''temp'', AggStr ''mean'')], r_warnings = []\<rparr>"
    by code_simp
  show ?thesis
    using not_null_filter[OF day] not_null_filter[OF week] day week
    by (simp add: column_source_def sensor_table_def)
qed

section \<open>Minute bucketing\<close>

text \<open>Arithmetic of timestamps counted in seconds.\<close>

lemma hour_base:
  fixes t :: int
  shows "(t div 86400) * 86400 + 3600 * ((t div 3600) mod 24) = 3600 * (t div 3600)"
proof -
  have "t div 86400 = (t div 3600) div 24"
    by (simp add: div_mult2_eq[symmetric])
  moreover have "24 * ((t div 3600) div 24) + (t div 3600) mod 24 = t div 3600"
    by simp
  ultimately show ?thesis by linarith
qed

lemma bucket_parts:
  fixes t k :: int
  assumes "0 \<le> k" "k < 60"
  shows "minute_of (3600 * (t div 3600) + 60 * k) = k"
    and "hour_of (3600 * (t div 3600) + 60 * k) = hour_of t"
    and "date_of (3600 * (t div 3600) + 60 * k) = date_of t"
proof -
  let ?H = "t div 3600"
  have d60: "(3600 * ?H + 60 * k) div 60 = 60 * ?H + k" by simp
  show "minute_of (3600 * (t div 3600) + 60 * k) = k"
    unfolding minute_of_def d60 using assms by simp
  have d3600: "(3600 * ?H + 60 * k) div 3600 = ?H"
    using assms by simp
  show "hour_of (3600 * (t div 3600) + 60 * k) = hour_of t"
    unfolding hour_of_def d3600 ..
  have "(3600 * ?H + 60 * k) div 86400 = ((3600 * ?H + 60 * k) div 3600) div 24"
    by (simp add: div_mult2_eq[symmetric])
  also have "\<dots> = ?H div 24" unfolding d3600 ..
  also have "\<dots> = t div 86400" by (simp add: div_mult2_eq[symmetric])
  finally show "date_of (3600 * (t div 3600) + 60 * k) = date_of t"
    unfolding date_of_def .
qed

lemma floor_multiple:
  fixes m N :: int
  assumes "0 \<le> m" "1 \<le> N"
  shows "0 \<le> m div N * N" "m div N * N \<le> m" "N dvd m div N * N"
proof -
  show "0 \<le> m div N * N"
    using assms by (simp add: pos_imp_zdiv_nonneg_iff)
  have "m div N * N + m mod N = m" by simp
  moreover have "0 \<le> m mod N" using assms by simp
  ultimately show "m div N * N \<le> m" by linarith
  show "N dvd m div N * N" by simp
qed

lemma trunc_div_nonneg: "0 \<le> x \<Longrightarrow> 1 \<le> y \<Longrightarrow> trunc_div x y = x div y"
  by (cases "x = 0") (simp_all add: trunc_div_def)

lemma minute_of_range: "0 \<le> minute_of t" "minute_of t < 60"
  by (simp_all add: minute_of_def)


lemma rounded_minutes_eval:
  assumes N: "1 \<le> N"
    and row: "row (tn, c) = VTimestamp t"
  shows "eval row (Func ''add_minutes''
           [Func ''add_hours'' [Func ''timestamp'' [Func ''date'' [Col tn c]], Func ''hour'' [Col tn c]],
            Mul (Div (Func ''minute'' [Col tn c]) (Lit N)) (Lit N)])
         = Some (VTimestamp (3600 * (t div 3600) + 60 * (minute_of t div N * N)))"
proof -
  have "trunc_div (minute_of t) N = minute_of t div N"
    using N minute_of_range(1) by (rule_tac trunc_div_nonneg) auto
  moreover have "date_of t * 86400 + 3600 * hour_of t = 3600 * (t div 3600)"
    unfolding date_of_def hour_of_def by (rule hour_base)
  ultimately show ?thesis
    using N row by (simp add: sql_func_def)
qed

text \<open>
  C7. For a grain \<open><N>min\<close> with \<open>1 \<le> N \<le> 60\<close> and \<open>N\<close> dividing 60, the time-grain
  resolution builds one bucket expression, and on a row whose timestamp is \<open>t\<close> that
  expression evaluates to a timestamp whose minute of the hour is the minute of \<open>t\<close>
  floored by integer division to a multiple of \<open>N\<close> (so it divides by \<open>N\<close> and does not
  exceed the minute of \<open>t\<close>), with the hour and the date of \<open>t\<close>.
\<close>

theorem minute_bucket_floor:
  assumes N: "1 \<le> N" "N \<le> 60" "N dvd 60"
    and grain: "endswith time_grain ''min''" "py_int (drop_last 3 time_grain) = Some N"
      "time_grain \<noteq> timestamp"
    and tab: "db (schema, table_name) = Some table" "timestamp \<in> set (tcols table)"
    and row: "row (tname table, timestamp) = VTimestamp t"
  shows "\<exists>e b. time_grain_group db table table_name schema (Some timestamp) (Some time_grain)
                 = Inr ([e], None) \<and>
               eval row e = Some (VTimestamp b) \<and>
               minute_of b = minute_of t div N * N \<and>
               N dvd minute_of b \<and> minute_of b \<le> minute_of t \<and>
               hour_of b = hour_of t \<and> date_of b = date_of t"
proof -
  let ?col = "Col (tname table) timestamp"
  let ?e = "Label (Func ''add_minutes''
           [Func ''add_hours'' [Func ''timestamp'' [Func ''date'' [?col]], Func ''hour'' [?col]],
            Mul (Div (Func ''minute'' [?col]) (Lit N)) (Lit N)]) timestamp"
  let ?k = "minute_of t div N * N"
  let ?b = "3600 * (t div 3600) + 60 * ?k"
  have built: "time_grain_group db table table_name schema (Some timestamp) (Some time_grain)
                 = Inr ([?e], None)"
    using grain tab
    by (simp add: time_grain_group_def ts_col_rounded_to_minutes_def get_table_def c_lookup_def)
  have ev: "eval row ?e = Some (VTimestamp ?b)"
    using rounded_minutes_eval[of N row "tname table" timestamp t] N(1) row by simp
  have k: "0 \<le> ?k" "?k \<le> minute_of t" "N dvd ?k"
    using floor_multiple[OF minute_of_range(1) N(1)] by auto
  then have k60: "?k < 60" using minute_of_range(2)[of t] by linarith
  from bucket_parts[OF k(1) k60, of t] k built ev show ?thesis
    by (intro exI[of _ ?e] exI[of _ ?b]) simp
qed

theorem minute_bucket_floor_witness:
  "\<exists>e. time_grain_group sensor_db sensor_table ''sensor'' None (Some ''evt_timestamp'')
          (Some ''15min'') = Inr ([e], None) \<and>
        (\<exists>b. eval (\<lambda>k. VTimestamp 1000000) e = Some (VTimestamp b) \<and>
              minute_of b = 45 \<and> minute_of 1000000 = 46 \<and> hour_of b = hour_of 1000000 \<and>
              date_of b = date_of 1000000)"
proof -
  have g: "endswith ''15min'' ''min''" "py_int (drop_last 3 ''15min'') = Some 15"
    "''15min'' \<noteq> ''evt_timestamp''"
    by (simp_all add: endswith_def py_int_def drop_last_def strip_def is_space_def
         unsigned_int_def is_digit_def digit_val_def)
  have t: "sensor_db (None, ''sensor'') = Some sensor_table"
    "''evt_timestamp'' \<in> set (tcols sensor_table)"
    by (simp_all add: sensor_db_def sensor_table_def)
  have m: "minute_of 1000000 = 46" by (simp add: minute_of_def)
  from minute_bucket_floor[of 15 "''15min''" "''evt_timestamp''" sensor_db None "''sensor''"
      sensor_table "\<lambda>k. VTimestamp 1000000" 1000000, OF _ _ _ g t] m
  show ?thesis by auto
qed

section \<open>The projection of the dual-aggregate join\<close>

text \<open>
  C9. Whenever \<open>subquery_join\<close> returns a query, its projection is exactly the right-hand
  columns named in the alias map, each labelled with its alias, followed by the columns
  of the left-hand subquery whose names are not among the aliases. The left-hand subquery
  has one column per name of a projected expression, so the output names are the aliases
  together with the left-hand names, a left-hand name being dropped only where a
  right-hand alias of the same name takes its place.
\<close>

theorem subquery_join_projection:
  assumes "subquery_join left_query right_query args kwargs = Inr jq"
  shows "j_projection jq =
           map (\<lambda>(col, alias). Label (Col ''b'' col) alias) kwargs @
           map (Col ''a'') (filter (\<lambda>name. name \<notin> snd ` set kwargs) (subquery_names left_query))
         \<and> set (subquery_names left_query) = expr_name ` set (q_args left_query)
         \<and> distinct (subquery_names left_query)
         \<and> set (map expr_name (j_projection jq))
             = snd ` set kwargs \<union> expr_name ` set (q_args left_query)"
proof -
  from assms obtain right_cols where
    rp: "right_projection right_query kwargs = Inr right_cols" and
    proj: "j_projection jq = right_cols @
             map (Col ''a'') (filter (\<lambda>name. name \<notin> snd ` set kwargs) (subquery_names left_query))"
    by (auto simp: subquery_join_def Let_def split: sum.splits)
  have rc: "right_cols = map (\<lambda>(col, alias). Label (Col ''b'' col) alias) kwargs"
    by (rule right_projection_Inr[OF rp])
  have names: "set (subquery_names left_query) = expr_name ` set (q_args left_query)"
    by (simp add: subquery_names_def set_collection_keys)
  have dist: "distinct (subquery_names left_query)"
    by (simp add: subquery_names_def distinct_collection_keys)
  have "map expr_name right_cols = map snd kwargs"
    unfolding rc by (induction kwargs) auto
  then have "set (map expr_name (j_projection jq))
      = snd ` set kwargs \<union> {n \<in> set (subquery_names left_query). n \<notin> snd ` set kwargs}"
    unfolding proj by (auto simp: comp_def image_iff)
  then have "set (map expr_name (j_projection jq))
      = snd ` set kwargs \<union> expr_name ` set (q_args left_query)"
    using names by auto
  then show ?thesis using proj rc names dist by simp
qed

theorem subquery_join_projection_witness:
  "(\<exists>jq. subquery_join energy_rollup last_event_rollup [KeyStr ''site'']
           [(''last_evt_timestamp'', ''last_evt_timestamp'')] = Inr jq \<and>
        j_projection jq = [Label (Col ''b'' ''last_evt_timestamp'') ''last_evt_timestamp'',
                           Col ''a'' ''site'', Col ''a'' ''total_energy''] \<and>
        set (map expr_name (j_projection jq)) = {''site'', ''total_energy'', ''last_evt_timestamp''}) \<and>
   (\<exists>jq. subquery_join site_count_rollup last_event_rollup [KeyStr ''site'']
           [(''last_evt_timestamp'', ''last_evt_timestamp'')] = Inr jq \<and>
        j_projection jq = [Label (Col ''b'' ''last_evt_timestamp'') ''last_evt_timestamp'',
                           Col ''a'' ''site'', Col ''a'' ''evt_timestamp''])"
proof -
  have run: "subquery_join energy_rollup last_event_rollup [KeyStr ''site'']
           [(''last_evt_timestamp'', ''last_evt_timestamp'')]
         = Inr \<lparr>j_left = energy_rollup, j_right = last_event_rollup,
                j_condition = AndP [Eq (Col ''a'' ''site'') (Col ''b'' ''site'')],
                j_projection = [Label (Col ''b'' ''last_evt_timestamp'') ''last_evt_timestamp'',
                           Col ''a'' ''site'', Col ''a'' ''total_energy'']\<rparr>"
    by (simp add: subquery_join_def subquery_c_def subquery_names_def energy_rollup_def
          last_event_rollup_def)
  have dup: "subquery_join site_count_rollup last_event_rollup [KeyStr ''site'']
           [(''last_evt_timestamp'', ''last_evt_timestamp'')]
         = Inr \<lparr>j_left = site_count_rollup, j_right = last_event_rollup,
                j_condition = AndP [Eq (Col ''a'' ''site'') (Col ''b'' ''site'')],
                j_projection = [Label (Col ''b'' ''last_evt_timestamp'') ''last_evt_timestamp'',
                           Col ''a'' ''site'', Col ''a'' ''evt_timestamp'']\<rparr>"
    by (simp add: subquery_join_def subquery_c_def subquery_names_def site_count_rollup_def
          last_event_rollup_def)
  from subquery_join_projection[OF run] subquery_join_projection[OF dup] run dup show ?thesis
    by (auto simp: subquery_names_def energy_rollup_def)
qed

text \<open>
  The join is built whenever every join key names a column of both subqueries and every
  key of the alias map names a column of the right-hand one.
\<close>

lemma join_conditions_succeed:
  assumes "list_all (\<lambda>k. case k of
               KeyStr col \<Rightarrow> col \<in> set (subquery_names left_query) \<and>
                             col \<in> set (subquery_names right_query)
             | KeyPair l r \<Rightarrow> l \<in> set (subquery_names left_query) \<and>
                              r \<in> set (subquery_names right_query)) args"
  shows "\<exists>joins. join_conditions left_query right_query args = Inr joins"
  using assms
  by (induction args) (auto simp: subquery_c_def split: join_key.splits)

lemma right_projection_succeeds:
  assumes "list_all (\<lambda>(col, alias). col \<in> set (subquery_names right_query)) kwargs"
  shows "\<exists>cs. right_projection right_query kwargs = Inr cs"
  using assms by (induction kwargs) (auto simp: subquery_c_def)

lemma subquery_join_succeeds:
  assumes "list_all (\<lambda>k. case k of
               KeyStr col \<Rightarrow> col \<in> set (subquery_names left_query) \<and>
                             col \<in> set (subquery_names right_query)
             | KeyPair l r \<Rightarrow> l \<in> set (subquery_names left_query) \<and>
                              r \<in> set (subquery_names right_query)) args"
    and "list_all (\<lambda>(col, alias). col \<in> set (subquery_names right_query)) kwargs"
  shows "\<exists>jq. subquery_join left_query right_query args kwargs = Inr jq"
proof -
  from join_conditions_succeed[OF assms(1)] obtain joins where
    "join_conditions left_query right_query args = Inr joins" by blast
  moreover from right_projection_succeeds[OF assms(2)] obtain cs where
    "right_projection right_query kwargs = Inr cs" by blast
  ultimately show ?thesis by (simp add: subquery_join_def Let_def)
qed

section \<open>Group-by resolution\<close>

text \<open>
  The loop over the group-by names: a name on the tables resolves against the table that
  has it, the time-series table first; the first name that is on neither raises, with
  \<open>KeyError\<close> when there is no dimension table and \<open>ValueError\<close> when there is one; and
  \<open>query_agg\<close> raises what the loop raises once the steps before it have passed.
\<close>

lemma groupby_column_on_tables:
  "on_tables table dim g \<Longrightarrow>
   groupby_column table dim g = Inr (Col (column_source table dim g) g)"
  by (auto simp: on_tables_def groupby_column_def c_lookup_def column_source_def
        split: option.splits)

lemma groupby_column_missing:
  "\<not> on_tables table dim g \<Longrightarrow>
   groupby_column table dim g =
     (case dim of
        None \<Rightarrow> Inl (KeyError (''group by column '' @ g
                  @ '' not found in main table and no dimension table specified''))
      | Some d \<Rightarrow> Inl (ValueError (''group by column '' @ g
                  @ '' not found in main table or dimension table'')))"
  by (auto simp: on_tables_def groupby_column_def c_lookup_def split: option.splits)

lemma groupby_columns_resolved:
  "list_all (on_tables table dim) gs \<Longrightarrow>
   groupby_columns table dim gs = Inr (map (\<lambda>g. Col (column_source table dim g) g) gs)"
  by (induction gs) (auto simp: groupby_column_on_tables)

lemma groupby_columns_first_error:
  "groupby_columns table dim gs = Inr cols \<Longrightarrow> groupby_column table dim g = Inl e \<Longrightarrow>
   groupby_columns table dim (gs @ g # rest) = Inl e"
  by (induction gs arbitrary: cols) (auto split: sum.splits)

lemma query_agg_groupby_raises:
  assumes "get_table db table_name schema = Inr table"
    and "get_dimension db dimension schema = Inr dim"
    and "aggregate_columns table dim timestamp agg_outputs agg_dict = Inr x"
    and "time_grain_group db table table_name schema timestamp time_grain = Inr y"
    and "groupby_list groupby = Some gs"
    and "groupby_columns table dim gs = Inl e"
  shows "query_agg db table_name schema agg_dict agg_outputs groupby timestamp
           time_grain dimension start_ts end_ts entities = Inl e"
  using assms by (cases x; cases y) (simp add: query_agg_def split: prod.splits)

lemma get_dimension_loaded:
  assumes "case dimension of None \<Rightarrow> dim = None | Some dn \<Rightarrow> dim \<noteq> None \<and> db (schema, dn) = dim"
  shows "get_dimension db dimension schema = Inr dim"
  using assms by (auto simp: get_dimension_def get_table_def split: option.splits)

text \<open>
  C10. In a call of \<open>query_agg\<close> whose table and dimension load and whose aggregate and
  time-grain steps pass: when every group-by name is on the tables, the pushed-down plan
  groups by each name resolved against the time-series table if it has the column and
  against the dimension table otherwise; when a name is on neither table (the names
  before it being on the tables), the call fails with \<open>KeyError\<close> if no dimension was
  given and with \<open>ValueError\<close> if one was, so the two failures are told apart by the
  kind of error.
\<close>

theorem query_agg_groupby_resolution:
  assumes tab: "db (schema, table_name) = Some table"
    and dimn: "case dimension of None \<Rightarrow> dim = None
               | Some dn \<Rightarrow> dim \<noteq> None \<and> db (schema, dn) = dim"
    and aggs: "aggregate_columns table dim timestamp agg_outputs agg_dict
                 = Inr (args, metric_filter, warnings)"
    and grain: "time_grain_group db table table_name schema timestamp time_grain
                 = Inr (time_grp, pandas_aggregate)"
    and gl: "groupby_list groupby = Some gs"
  shows "(list_all (on_tables table dim) gs \<and> pandas_aggregate = None \<and>
          (case dim of None \<Rightarrow> True
           | Some d \<Rightarrow> ''deviceid'' \<in> set (tcols d) \<and> ''deviceid'' \<in> set (tcols table)) \<longrightarrow>
            (\<exists>res. query_agg db table_name schema agg_dict agg_outputs groupby timestamp
                      time_grain dimension start_ts end_ts entities = Inr res \<and>
                   q_group_by (r_query res)
                     = time_grp @ map (\<lambda>g. Col (column_source table dim g) g) gs)) \<and>
         (gs = pre @ g # post \<and> list_all (on_tables table dim) pre \<and> \<not> on_tables table dim g \<longrightarrow>
            (dimension = None \<longrightarrow>
               query_agg db table_name schema agg_dict agg_outputs groupby timestamp
                 time_grain dimension start_ts end_ts entities
               = Inl (KeyError (''group by column '' @ g
                   @ '' not found in main table and no dimension table specified''))) \<and>
            (dimension \<noteq> None \<longrightarrow>
               query_agg db table_name schema agg_dict agg_outputs groupby timestamp
                 time_grain dimension start_ts end_ts entities
               = Inl (ValueError (''group by column '' @ g
                   @ '' not found in main table or dimension table''))))"
proof -
  have t: "get_table db table_name schema = Inr table"
    using tab by (simp add: get_table_def)
  have d: "get_dimension db dimension schema = Inr dim"
    by (rule get_dimension_loaded[OF dimn])
  have dim_iff: "dimension = None \<longleftrightarrow> dim = None"
    using dimn by (auto split: option.splits)
  have ok: "\<exists>res. query_agg db table_name schema agg_dict agg_outputs groupby timestamp
                      time_grain dimension start_ts end_ts entities = Inr res \<and>
                   q_group_by (r_query res)
                     = time_grp @ map (\<lambda>g. Col (column_source table dim g) g) gs"
    if res: "list_all (on_tables table dim) gs" and pa: "pandas_aggregate = None"
      and dev: "case dim of None \<Rightarrow> True
           | Some d \<Rightarrow> ''deviceid'' \<in> set (tcols d) \<and> ''deviceid'' \<in> set (tcols table)"
    using t d aggs grain gl groupby_columns_resolved[OF res] pa dev
    by (auto simp: query_agg_def Let_def join_dimension_def c_attr_def split: option.splits)
  have bad: "query_agg db table_name schema agg_dict agg_outputs groupby timestamp
                 time_grain dimension start_ts end_ts entities
             = (case dim of
                  None \<Rightarrow> Inl (KeyError (''group by column '' @ g
                     @ '' not found in main table and no dimension table specified''))
                | Some d \<Rightarrow> Inl (ValueError (''group by column '' @ g
                     @ '' not found in main table or dimension table'')))"
    if split: "gs = pre @ g # post" and pre: "list_all (on_tables table dim) pre"
      and miss: "\<not> on_tables table dim g"
  proof -
    have "groupby_columns table dim gs
          = (case dim of
                  None \<Rightarrow> Inl (KeyError (''group by column '' @ g
                     @ '' not found in main table and no dimension table specified''))
                | Some d \<Rightarrow> Inl (ValueError (''group by column '' @ g
                     @ '' not found in main table or dimension table'')))"
      unfolding split
      using groupby_columns_first_error[OF groupby_columns_resolved[OF pre], of g _ post]
        groupby_column_missing[OF miss]
      by (auto split: option.splits)
    then show ?thesis
      using query_agg_groupby_raises[OF t d aggs grain gl] by (auto split: option.splits)
  qed
  show ?thesis
    using ok bad dim_iff by (auto split: option.splits)
qed


theorem query_agg_groupby_resolution_witness:
  "(\<exists>res. query_agg sensor_db ''sensor'' None [(''temp'', AggStr ''mean'')] None
            (Some (GroupList [''site'', ''last_evt_timestamp''])) None None (Some ''rollup'')
            None None None = Inr res \<and>
          q_group_by (r_query res)
            = [Col ''sensor'' ''site'', Col ''rollup'' ''last_evt_timestamp'']) \<and>
   query_agg sensor_db ''sensor'' None [(''temp'', AggStr ''mean'')] None
     (Some (GroupList [''site'', ''zone''])) None None None None None None
     = Inl (KeyError
         ''group by column zone not found in main table and no dimension table specified'') \<and>
   query_agg sensor_db ''sensor'' None [(''temp'', AggStr ''mean'')] None
     (Some (GroupList [''site'', ''zone''])) None None (Some ''rollup'') None None None
     = Inl (ValueError ''group by column zone not found in main table or dimension table'')"
proof -
  have tab: "sensor_db (None, ''sensor'') = Some sensor_table"
    by (simp add: sensor_db_def)
  have no_dim: "case None :: string option of None \<Rightarrow> (None :: table option) = None
                | Some dn \<Rightarrow> (None :: table option) \<noteq> None \<and> sensor_db (None, dn) = None"
    by simp
  have with_dim: "case Some ''rollup'' of None \<Rightarrow> Some rollup_table = None
                | Some dn \<Rightarrow> Some rollup_table \<noteq> None \<and> sensor_db (None, dn) = Some rollup_table"
    by (simp add: sensor_db_def)
  have aggs: "aggregate_columns sensor_table dim None None [(''temp'', AggStr ''mean'')]
          = Inr ([Label (Func ''avg'' [Col ''sensor'' ''temp'']) ''temp''],
                 [IsNotNull (Col ''sensor'' ''temp'')], [])" for dim
    by (simp add: aggregate_item_def aggregate_alias_def agg_map_def c_lookup_def
          is_not_null_def sensor_table_def)
  have grain: "time_grain_group sensor_db sensor_table ''sensor'' None None None = Inr ([], None)"
    by (simp add: time_grain_group_def)
  have g1: "groupby_list (Some (GroupList [''site'', ''last_evt_timestamp'']))
              = Some [''site'', ''last_evt_timestamp'']"
    and g2: "groupby_list (Some (GroupList [''site'', ''zone''])) = Some [''site'', ''zone'']"
    by simp_all
  note resolved = query_agg_groupby_resolution[OF tab with_dim aggs grain g1,
      where start_ts = None and end_ts = None and entities = None]
  note no_dimension = query_agg_groupby_resolution[OF tab no_dim aggs grain g2,
      where pre = "[''site'']" and g = "''zone''" and post = "[]"
        and start_ts = None and end_ts = None and entities = None]
  note missing = query_agg_groupby_resolution[OF tab with_dim aggs grain g2,
      where pre = "[''site'']" and g = "''zone''" and post = "[]"
        and start_ts = None and end_ts = None and entities = None]
  have "\<exists>res. query_agg sensor_db ''sensor'' None [(''temp'', AggStr ''mean'')] None
            (Some (GroupList [''site'', ''last_evt_timestamp''])) None None (Some ''rollup'')
            None None None = Inr res \<and>
          q_group_by (r_query res)
            = [Col ''sensor'' ''site'', Col ''rollup'' ''last_evt_timestamp'']"
    using resolved
    by (simp add: on_tables_def column_source_def sensor_table_def rollup_table_def)
  moreover have "query_agg sensor_db ''sensor'' None [(''temp'', AggStr ''mean'')] None
     (Some (GroupList [''site'', ''zone''])) None None None None None None
     = Inl (KeyError
         ''group by column zone not found in main table and no dimension table specified'')"
    using no_dimension by (simp add: on_tables_def sensor_table_def)
  moreover have "query_agg sensor_db ''sensor'' None [(''temp'', AggStr ''mean'')] None
     (Some (GroupList [''site'', ''zone''])) None None (Some ''rollup'') None None None
     = Inl (ValueError ''group by column zone not found in main table or dimension table'')"
    using missing by (simp add: on_tables_def sensor_table_def rollup_table_def)
  ultimately show ?thesis by blast
qed

section \<open>Date-range and entity filters\<close>

text \<open>
  C1. A plan assembled with a start timestamp, an end timestamp and an entity list is to
  carry the three filters whether or not the time grain was pushed down, and a date
  range without a timestamp column is to fail. For the grain \<open>day\<close> the plan is pushed
  down and its only filter is the not-null disjunction; and with no timestamp column and
  no grain a start and an end timestamp are accepted and dropped. Only the branch taken
  for a fallback frequency goes through \<open>query\<close>, which applies the filters.
\<close>

theorem query_agg_pushdown_drops_range_filters:
  "(\<exists>res. query_agg sensor_db ''sensor'' None [(''temp'', AggStr ''mean'')] None None
            (Some ''evt_timestamp'') (Some ''day'') None (Some 100) (Some 200) (Some [''d1''])
            = Inr res \<and>
          r_pandas_aggregate res = None \<and>
          q_filters (r_query res) = [OrP [IsNotNull (Col ''sensor'' ''temp'')]]) \<and>
   (\<exists>res. query_agg sensor_db ''sensor'' None [(''temp'', AggStr ''mean'')] None None
            None None None (Some 100) (Some 200) None = Inr res \<and>
          q_filters (r_query res) = [OrP [IsNotNull (Col ''sensor'' ''temp'')]])"
proof -
  have "case query_agg sensor_db ''sensor'' None [(''temp'', AggStr ''mean'')] None None
            (Some ''evt_timestamp'') (Some ''day'') None (Some 100) (Some 200) (Some [''d1'']) of
          Inr res \<Rightarrow> r_pandas_aggregate res = None \<and>
             q_filters (r_query res) = [OrP [IsNotNull (Col ''sensor'' ''temp'')]]
        | Inl e \<Rightarrow> False"
    by code_simp
  moreover
  have "case query_agg sensor_db ''sensor'' None [(''temp'', AggStr ''mean'')] None None
            None None None (Some 100) (Some 200) None of
          Inr res \<Rightarrow> q_filters (r_query res) = [OrP [IsNotNull (Col ''sensor'' ''temp'')]]
        | Inl e \<Rightarrow> False"
    by code_simp
  ultimately show ?thesis by (auto split: sum.splits)
qed

text \<open>
  What holds: the query of \<open>query\<close>, which a fallback plan is built on, carries each
  filter that was asked for, and asking for a date range without a timestamp column
  fails there.
\<close>

lemma query_filters:
  assumes "query db table_name schema column_names timestamp_col start_ts end_ts entities
             dimension = Inr (q, table)"
  shows "q_filters q =
           (case start_ts of None \<Rightarrow> []
            | Some s \<Rightarrow> [Ge (Col (tname table) (the timestamp_col)) s]) @
           (case end_ts of None \<Rightarrow> []
            | Some s \<Rightarrow> [Lt (Col (tname table) (the timestamp_col)) s]) @
           (case entities of None \<Rightarrow> []
            | Some es \<Rightarrow> [InP (Col (tname table) ''deviceid'') es])"
  using assms
  by (auto simp: query_def filter_start_def filter_end_def filter_entities_def
        join_dimension_def c_lookup_def c_attr_def
        split: sum.splits option.splits if_splits)

lemma query_needs_timestamp_col:
  assumes "start_ts \<noteq> None \<or> end_ts \<noteq> None"
    and "db (schema, table_name) = Some table"
  shows "query db table_name schema None None start_ts end_ts entities None
           = Inl no_timestamp_col"
  using assms
  by (auto simp: query_def get_table_def get_dimension_def filter_start_def filter_end_def
        split: sum.splits option.splits)

section \<open>Missing output aliases\<close>

text \<open>
  C3. Where a column maps to a list of aggregate kinds and the alias table has no alias
  for a position, the assembler is to warn, use \<open><column>_<aggregate>\<close> and go on, also
  when no alias table is given at all. With no alias table (the default) the request
  \<open>{pressure: [min, max]}\<close> raises \<open>TypeError\<close>: subscripting \<open>None\<close> is not one of the
  two exceptions the handler catches.
\<close>

theorem query_agg_no_alias_table_raises:
  "query_agg sensor_db ''sensor'' None [(''pressure'', AggList [''min'', ''max''])] None None
     None None None None None None
   = Inl (TypeError ([CHR 0x27] @ ''NoneType'' @ [CHR 0x27] @ '' object is not subscriptable''))"
  by code_simp

text \<open>
  What holds: with an alias table that lacks the column, or whose list for the column is
  too short, the default alias is used and the warning is logged.
\<close>

lemma aggregate_list_default_alias:
  assumes "outputs col = None \<or> (\<exists>names. outputs col = Some names \<and> length names \<le> i)"
  shows "aggregate_list table dim timestamp (Some outputs) col i (agg # rest) =
           (case aggregate_item table col agg (Some (col @ ''_'' @ agg)) dim timestamp of
              Inl e \<Rightarrow> Inl e
            | Inr item \<Rightarrow>
                (case aggregate_list table dim timestamp (Some outputs) col (Suc i) rest of
                   Inl e \<Rightarrow> Inl e
                 | Inr (items, warnings) \<Rightarrow>
                     Inr (item # items, default_warning col agg # warnings)))"
  using assms by (auto simp: output_alias_def split: sum.splits)

section \<open>Classification of time grains\<close>

text \<open>
  C4. Every grain string given with a timestamp column is to yield either a bucket
  expression or a fallback frequency, a string outside the listed forms yielding the
  fallback frequency. The grains \<open>H\<close> and \<open>min\<close> (pandas frequency strings, which the
  docstring of \<open>query_agg\<close> admits) yield neither: they end in \<open>H\<close> and \<open>min\<close>, the
  prefix is empty, and \<open>int\<close> raises \<open>ValueError\<close>.
\<close>

theorem time_grain_hourly_frequency_raises:
  "time_grain_group sensor_db sensor_table ''sensor'' None (Some ''evt_timestamp'') (Some ''H'')
     = Inl (ValueError (''invalid literal for int() with base 10: '' @ [CHR 0x27, CHR 0x27])) \<and>
   time_grain_group sensor_db sensor_table ''sensor'' None (Some ''evt_timestamp'') (Some ''min'')
     = Inl (ValueError (''invalid literal for int() with base 10: '' @ [CHR 0x27, CHR 0x27])) \<and>
   query_agg sensor_db ''sensor'' None [(''temp'', AggStr ''mean'')] None None
     (Some ''evt_timestamp'') (Some ''H'') None None None None
     = Inl (ValueError (''invalid literal for int() with base 10: '' @ [CHR 0x27, CHR 0x27]))"
  by code_simp

text \<open>
  What holds: a resolution that returns gives one bucket expression labelled with the
  timestamp column or the grain as fallback frequency, never both and never neither; a
  string that ends in neither \<open>min\<close> nor \<open>H\<close> and is none of the listed grains is the
  fallback frequency; the calendar grains give a bucket expression.
\<close>

lemma time_grain_group_exactly_one:
  assumes "time_grain_group db table table_name schema timestamp (Some tg) = Inr (grp, pa)"
  shows "(\<exists>e. grp = [e] \<and> pa = None \<and> Some (expr_name e) = timestamp) \<or>
         (grp = [] \<and> pa = Some tg)"
  using assms
  by (auto simp: time_grain_group_def ts_col_rounded_to_minutes_def ts_col_rounded_to_hours_def
        calendar_bucket_def Let_def
        split: option.splits sum.splits if_splits)

lemma time_grain_group_fallback:
  assumes "\<not> endswith tg ''min''" "\<not> endswith tg ''H''"
    and "tg \<notin> {ts, ''day'', ''week'', ''month'', ''year''}"
  shows "time_grain_group db table table_name schema (Some ts) (Some tg) = Inr ([], Some tg)"
  using assms by (simp add: time_grain_group_def)

lemma time_grain_group_calendar:
  assumes "ts \<in> set (tcols table)" "tg \<in> {''day'', ''week'', ''month'', ''year''}" "tg \<noteq> ts"
  shows "\<exists>f. time_grain_group db table table_name schema (Some ts) (Some tg)
           = Inr ([Label (Func f [Col (tname table) ts]) ts], None)"
  using assms
  by (auto simp: time_grain_group_def calendar_bucket_def c_lookup_def endswith_def)

section \<open>Errors of the time-aggregate query\<close>

text \<open>
  C5. \<open>query_time_agg\<close> is to fail when either of its two plans is a fallback plan,
  before any join is built. With the grain \<open>W-MON\<close> the first/last-timestamp plan is a
  fallback plan, and \<open>query_time_agg\<close> goes on to \<open>subquery_join\<close>: on the sensor table
  the join raises \<open>KeyError\<close> for the column \<open>last_evt_timestamp\<close>, and on a table that
  has a column of that name the join is built on the raw rows. \<open>pandas_aggregate\<close> is
  tested only after the first plan, which is built with the timestamp column as its
  grain and so is never a fallback plan.
\<close>

theorem query_time_agg_joins_fallback_plan:
  "(\<exists>b. query_agg sensor_db ''sensor'' None [(''evt_timestamp'', AggStr ''max'')] None
           (Some (GroupList [''site''])) (Some ''evt_timestamp'') (Some ''W-MON'') None
           None None None = Inr b \<and>
        r_pandas_aggregate b = Some ''W-MON'') \<and>
   query_time_agg sensor_db ''sensor'' None ''energy'' (AggStr ''sum'') ''last''
     (Some (GroupList [''site''])) (Some ''evt_timestamp'') (Some ''W-MON'') None None None None
     = Inl (KeyError ''last_evt_timestamp'') \<and>
   (\<exists>jq t. query_time_agg sensor_db ''rollup'' None ''energy'' (AggStr ''sum'') ''last''
       (Some (GroupList [''site''])) (Some ''evt_timestamp'') (Some ''W-MON'') None None None None
       = Inr (jq, t) \<and> q_args (j_right jq) = table_columns rollup_table)"
proof -
  have "case query_agg sensor_db ''sensor'' None [(''evt_timestamp'', AggStr ''max'')] None
           (Some (GroupList [''site''])) (Some ''evt_timestamp'') (Some ''W-MON'') None
           None None None of
          Inr b \<Rightarrow> r_pandas_aggregate b = Some ''W-MON'' | Inl e \<Rightarrow> False"
    by code_simp
  moreover
  have "query_time_agg sensor_db ''sensor'' None ''energy'' (AggStr ''sum'') ''last''
     (Some (GroupList [''site''])) (Some ''evt_timestamp'') (Some ''W-MON'') None None None None
     = Inl (KeyError ''last_evt_timestamp'')"
    by code_simp
  moreover
  have "case query_time_agg sensor_db ''rollup'' None ''energy'' (AggStr ''sum'') ''last''
       (Some (GroupList [''site''])) (Some ''evt_timestamp'') (Some ''W-MON'') None None None None of
          Inr (jq, t) \<Rightarrow> q_args (j_right jq) = table_columns rollup_table | Inl e \<Rightarrow> False"
    by code_simp
  ultimately show ?thesis by (auto split: sum.splits)
qed

text \<open>
  What holds: once the regular plan is built, a time aggregate other than \<open>first\<close> and
  \<open>last\<close> is refused.
\<close>

lemma query_time_agg_invalid_time_aggregate:
  assumes "query_agg db table_name schema [(column, regular_agg)] None
             (map_option GroupList (groupby_list groupby)) timestamp timestamp
             dimension start_ts end_ts entities = Inr a"
    and "\<not> truthy (r_pandas_aggregate a)"
    and "time_agg \<noteq> ''first''" "time_agg \<noteq> ''last''"
  shows "query_time_agg db table_name schema column regular_agg time_agg groupby timestamp
           time_grain dimension start_ts end_ts entities
         = Inl (invalid_time_aggregate time_agg)"
  using assms by (simp add: query_time_agg_def)

section \<open>The time-aggregate scenario\<close>

text \<open>
  C6, as stated: for the regular aggregate \<open>{energy: sum}\<close>, the time aggregate \<open>last\<close>,
  the grain \<open>day\<close> and the group-by \<open>[site]\<close>, the regular rollup is bucketed at the
  requested grain and the join is on the bucketed timestamp and the group-by keys. It is
  not: the regular rollup is grouped by the raw timestamp.
\<close>

theorem query_time_agg_regular_rollup_counterexample:
  "\<not> (\<exists>jq t. query_time_agg sensor_db ''sensor'' None ''energy'' (AggStr ''sum'') ''last''
         (Some (GroupList [''site''])) (Some ''evt_timestamp'') (Some ''day'') None None None None
         = Inr (jq, t) \<and>
       q_group_by (j_left jq)
         = [Label (Func ''day'' [Col ''sensor'' ''evt_timestamp'']) ''evt_timestamp'',
            Col ''sensor'' ''site''] \<and>
       j_condition jq = AndP [Eq (Col ''a'' ''evt_timestamp'') (Col ''b'' ''evt_timestamp''),
                              Eq (Col ''a'' ''site'') (Col ''b'' ''site'')])"
proof -
  have "case query_time_agg sensor_db ''sensor'' None ''energy'' (AggStr ''sum'') ''last''
         (Some (GroupList [''site''])) (Some ''evt_timestamp'') (Some ''day'') None None None None of
          Inr (jq, t) \<Rightarrow>
            q_group_by (j_left jq)
              = [Label (Col ''sensor'' ''evt_timestamp'') ''evt_timestamp'', Col ''sensor'' ''site'']
        | Inl e \<Rightarrow> False"
    by code_simp
  then show ?thesis by (auto split: sum.splits)
qed

text \<open>
  C6, amended: on any table with the columns \<open>energy\<close>, \<open>evt_timestamp\<close> and \<open>site\<close>,
  the request returns the join of the regular rollup grouped by the raw timestamp and
  \<open>site\<close> with the last-timestamp rollup bucketed by day and grouped by \<open>site\<close>, on
  left \<open>evt_timestamp\<close> = right \<open>last_evt_timestamp\<close> and on \<open>site\<close>; its projection is
  \<open>last_evt_timestamp\<close>, the day bucket labelled \<open>evt_timestamp\<close>, the regular aggregate
  \<open>energy\<close> and \<open>site\<close>.
\<close>

theorem query_time_agg_day_plan:
  assumes tab: "db (schema, table_name) = Some table"
    and cols: "''energy'' \<in> set (tcols table)" "''evt_timestamp'' \<in> set (tcols table)"
      "''site'' \<in> set (tcols table)"
  shows "query_time_agg db table_name schema ''energy'' (AggStr ''sum'') ''last''
           (Some (GroupList [''site''])) (Some ''evt_timestamp'') (Some ''day'') None
           start_ts end_ts entities
         = Inr (\<lparr>j_left =
                   \<lparr>q_args = [Label (Func ''sum'' [Col (tname table) ''energy'']) ''energy'',
                               Label (Col (tname table) ''evt_timestamp'') ''evt_timestamp'',
                               Col (tname table) ''site''],
                    q_group_by = [Label (Col (tname table) ''evt_timestamp'') ''evt_timestamp'',
                                   Col (tname table) ''site''],
                    q_joins = [],
                    q_filters = [OrP [IsNotNull (Col (tname table) ''energy'')]]\<rparr>,
                 j_right =
                   \<lparr>q_args = [Label (Func ''max'' [Col (tname table) ''evt_timestamp''])
                                 ''last_evt_timestamp'',
                               Label (Func ''day'' [Col (tname table) ''evt_timestamp''])
                                 ''evt_timestamp'',
                               Col (tname table) ''site''],
                    q_group_by = [Label (Func ''day'' [Col (tname table) ''evt_timestamp''])
                                    ''evt_timestamp'',
                                   Col (tname table) ''site''],
                    q_joins = [],
                    q_filters = [OrP [IsNotNull (Col (tname table) ''evt_timestamp'')]]\<rparr>,
                 j_condition =
                   AndP [Eq (Col ''a'' ''evt_timestamp'') (Col ''b'' ''last_evt_timestamp''),
                         Eq (Col ''a'' ''site'') (Col ''b'' ''site'')],
                 j_projection =
                   [Label (Col ''b'' ''last_evt_timestamp'') ''last_evt_timestamp'',
                    Label (Col ''b'' ''evt_timestamp'') ''evt_timestamp'',
                    Col ''a'' ''energy'',
                    Col ''a'' ''site'']\<rparr>,
                table)"
proof -
  have t: "get_table db table_name schema = Inr table"
    using tab by (simp add: get_table_def)
  have a: "query_agg db table_name schema [(''energy'', AggStr ''sum'')] None
             (Some (GroupList [''site''])) (Some ''evt_timestamp'') (Some ''evt_timestamp'') None
             start_ts end_ts entities
           = Inr \<lparr>r_query =
                   \<lparr>q_args = [Label (Func ''sum'' [Col (tname table) ''energy'']) ''energy'',
                               Label (Col (tname table) ''evt_timestamp'') ''evt_timestamp'',
                               Col (tname table) ''site''],
                    q_group_by = [Label (Col (tname table) ''evt_timestamp'') ''evt_timestamp'',
                                   Col (tname table) ''site''],
                    q_joins = [],
                    q_filters = [OrP [IsNotNull (Col (tname table) ''energy'')]]\<rparr>,
                  r_table = table, r_dim = None, r_pandas_aggregate = None,
                  r_agg_dict = [(''energy'', AggStr ''sum'')], r_warnings = []\<rparr>"
    using t cols
    by (simp add: query_agg_def get_dimension_def aggregate_item_def aggregate_alias_def
          agg_map_def c_lookup_def is_not_null_def time_grain_group_def groupby_column_def Let_def)
  have b: "query_agg db table_name schema [(''evt_timestamp'', AggStr ''max'')] None
             (Some (GroupList [''site''])) (Some ''evt_timestamp'') (Some ''day'') None
             start_ts end_ts entities
           = Inr \<lparr>r_query =
                   \<lparr>q_args = [Label (Func ''max'' [Col (tname table) ''evt_timestamp''])
                                 ''last_evt_timestamp'',
                               Label (Func ''day'' [Col (tname table) ''evt_timestamp''])
                                 ''evt_timestamp'',
                               Col (tname table) ''site''],
                    q_group_by = [Label (Func ''day'' [Col (tname table) ''evt_timestamp''])
                                    ''evt_timestamp'',
                                   Col (tname table) ''site''],
                    q_joins = [],
                    q_filters = [OrP [IsNotNull (Col (tname table) ''evt_timestamp'')]]\<rparr>,
                  r_table = table, r_dim = None, r_pandas_aggregate = None,
                  r_agg_dict = [(''evt_timestamp'', AggStr ''max'')], r_warnings = []\<rparr>"
    using t cols
    by (simp add: query_agg_def get_dimension_def aggregate_item_def aggregate_alias_def
          agg_map_def c_lookup_def is_not_null_def time_grain_group_def groupby_column_def
          calendar_bucket_def endswith_def Let_def)
  show ?thesis
    by (simp add: query_time_agg_def a b subquery_join_def subquery_c_def subquery_names_def Let_def)
qed

theorem query_time_agg_day_plan_witness:
  "\<exists>jq. query_time_agg sensor_db ''sensor'' None ''energy'' (AggStr ''sum'') ''last''
           (Some (GroupList [''site''])) (Some ''evt_timestamp'') (Some ''day'') None
           None None None = Inr (jq, sensor_table) \<and>
         q_group_by (j_left jq)
           = [Label (Col ''sensor'' ''evt_timestamp'') ''evt_timestamp'', Col ''sensor'' ''site''] \<and>
         q_group_by (j_right jq)
           = [Label (Func ''day'' [Col ''sensor'' ''evt_timestamp'']) ''evt_timestamp'',
              Col ''sensor'' ''site''] \<and>
         map expr_name (j_projection jq)
           = [''last_evt_timestamp'', ''evt_timestamp'', ''energy'', ''site'']"
  using query_time_agg_day_plan[of sensor_db None "''sensor''" sensor_table None None None]
  by (simp add: sensor_db_def sensor_table_def)

end
